theory Spec2Isabelle
  imports Complex_Main
begin

section \<open>Entity model of \<^verbatim>\<open>Hotel.py\<close>\<close>

text \<open>
  Python objects are shared by reference: a \<^verbatim>\<open>Reserva\<close> holds references to its
  \<^verbatim>\<open>Cliente\<close> and its \<^verbatim>\<open>Habitacion\<close>, and the registries of \<^verbatim>\<open>GestorHotel\<close>
  are lists of references. A reference is an address into a store with one table of
  objects per class. The management layer only stores prices and dates; a price is a
  \<open>real\<close> and a \<^verbatim>\<open>datetime\<close> is an integer time stamp.
\<close>

type_synonym ref = nat
type_synonym datetime = int

record Habitacion =
  numero :: int
  tipo :: string
  precio_por_noche :: real
  disponible :: bool

record Cliente =
  nombres :: string
  apellidos :: string
  dpi :: string
  reservas :: "ref list"

record Reserva =
  cliente :: ref
  habitacion :: ref
  fecha_entrada :: datetime
  fecha_salida :: datetime
  estado :: string

record GestorHotel =
  habitaciones :: "ref list"
  clientes :: "ref list"
  reservas :: "ref list"

text \<open>
  The store: the objects of each class by address, the number of objects allocated so far
  in each class (the addresses below it are the live objects), and the one
  \<^verbatim>\<open>GestorHotel\<close> of the program.
\<close>

record Sistema =
  obj_hab :: "ref \<Rightarrow> Habitacion"
  obj_cli :: "ref \<Rightarrow> Cliente"
  obj_res :: "ref \<Rightarrow> Reserva"
  n_hab :: nat
  n_cli :: nat
  n_res :: nat
  gestor :: GestorHotel

subsection \<open>Constructors\<close>

text \<open>\<^verbatim>\<open>Habitacion.__init__\<close>: every room starts available.\<close>

definition Habitacion_init :: "int \<Rightarrow> string \<Rightarrow> real \<Rightarrow> Habitacion" where
  "Habitacion_init num t precio =
     \<lparr>numero = num, tipo = t, precio_por_noche = precio, disponible = True\<rparr>"

text \<open>The label of the standard room is \<^verbatim>\<open>Est\<close>, U+00E1, \<^verbatim>\<open>ndar\<close>.\<close>

definition HabitacionEstandar :: "int \<Rightarrow> real \<Rightarrow> Habitacion" where
  "HabitacionEstandar num precio = Habitacion_init num (''Est'' @ [CHR 0xE1] @ ''ndar'') precio"

definition HabitacionSuite :: "int \<Rightarrow> real \<Rightarrow> Habitacion" where
  "HabitacionSuite num precio = Habitacion_init num ''Suite'' precio"

definition HabitacionDeluxe :: "int \<Rightarrow> real \<Rightarrow> Habitacion" where
  "HabitacionDeluxe num precio = Habitacion_init num ''Deluxe'' precio"

text \<open>\<^verbatim>\<open>Cliente.__init__\<close>: a new client owns no reservation.\<close>

definition Cliente_init :: "string \<Rightarrow> string \<Rightarrow> string \<Rightarrow> Cliente" where
  "Cliente_init ns aps d = \<lparr>nombres = ns, apellidos = aps, dpi = d, reservas = []\<rparr>"

text \<open>\<^verbatim>\<open>Reserva.__init__\<close>: a new reservation is \<^verbatim>\<open>"Activa"\<close>.\<close>

definition Reserva_init :: "ref \<Rightarrow> ref \<Rightarrow> datetime \<Rightarrow> datetime \<Rightarrow> Reserva" where
  "Reserva_init c h fe fs =
     \<lparr>cliente = c, habitacion = h, fecha_entrada = fe, fecha_salida = fs, estado = ''Activa''\<rparr>"

text \<open>\<^verbatim>\<open>GestorHotel.__init__\<close>: three empty registries.\<close>

definition GestorHotel_init :: GestorHotel where
  "GestorHotel_init = \<lparr>habitaciones = [], clientes = [], reservas = []\<rparr>"

text \<open>
  Creating an object stores it at the next free address of its class and returns that
  address with the new store.
\<close>

definition new_Habitacion :: "Sistema \<Rightarrow> Habitacion \<Rightarrow> Sistema \<times> ref" where
  "new_Habitacion s h =
     (s\<lparr>obj_hab := (obj_hab s)(n_hab s := h), n_hab := Suc (n_hab s)\<rparr>, n_hab s)"

definition new_Cliente :: "Sistema \<Rightarrow> Cliente \<Rightarrow> Sistema \<times> ref" where
  "new_Cliente s c =
     (s\<lparr>obj_cli := (obj_cli s)(n_cli s := c), n_cli := Suc (n_cli s)\<rparr>, n_cli s)"

definition new_Reserva :: "Sistema \<Rightarrow> Reserva \<Rightarrow> Sistema \<times> ref" where
  "new_Reserva s r =
     (s\<lparr>obj_res := (obj_res s)(n_res s := r), n_res := Suc (n_res s)\<rparr>, n_res s)"

text \<open>
  The program start: no object allocated yet (the tables hold placeholders at every
  address, none of them live) and a fresh \<^verbatim>\<open>GestorHotel\<close>.
\<close>

definition inicial :: Sistema where
  "inicial =
     \<lparr>obj_hab = (\<lambda>_. Habitacion_init 0 [] 0),
      obj_cli = (\<lambda>_. Cliente_init [] [] []),
      obj_res = (\<lambda>_. Reserva_init 0 0 0 0),
      n_hab = 0, n_cli = 0, n_res = 0,
      gestor = GestorHotel_init\<rparr>"

section \<open>The management layer: \<^verbatim>\<open>GestorHotel\<close>\<close>

text \<open>Field updates of one object in the store (an attribute assignment).\<close>

definition set_precio :: "Sistema \<Rightarrow> ref \<Rightarrow> real \<Rightarrow> Sistema" where
  "set_precio s h p = s\<lparr>obj_hab := (obj_hab s)(h := (obj_hab s h)\<lparr>precio_por_noche := p\<rparr>)\<rparr>"

definition set_disponible :: "Sistema \<Rightarrow> ref \<Rightarrow> bool \<Rightarrow> Sistema" where
  "set_disponible s h b = s\<lparr>obj_hab := (obj_hab s)(h := (obj_hab s h)\<lparr>disponible := b\<rparr>)\<rparr>"

definition set_nombres :: "Sistema \<Rightarrow> ref \<Rightarrow> string \<Rightarrow> string \<Rightarrow> Sistema" where
  "set_nombres s c ns aps =
     s\<lparr>obj_cli := (obj_cli s)(c := (obj_cli s c)\<lparr>nombres := ns, apellidos := aps\<rparr>)\<rparr>"

definition append_reserva_cliente :: "Sistema \<Rightarrow> ref \<Rightarrow> ref \<Rightarrow> Sistema" where
  "append_reserva_cliente s c r =
     s\<lparr>obj_cli := (obj_cli s)
          (c := (obj_cli s c)\<lparr>Cliente.reservas := Cliente.reservas (obj_cli s c) @ [r]\<rparr>)\<rparr>"

definition set_fechas :: "Sistema \<Rightarrow> ref \<Rightarrow> datetime \<Rightarrow> datetime \<Rightarrow> Sistema" where
  "set_fechas s r fe fs =
     s\<lparr>obj_res := (obj_res s)(r := (obj_res s r)\<lparr>fecha_entrada := fe, fecha_salida := fs\<rparr>)\<rparr>"

definition set_estado :: "Sistema \<Rightarrow> ref \<Rightarrow> string \<Rightarrow> Sistema" where
  "set_estado s r e = s\<lparr>obj_res := (obj_res s)(r := (obj_res s r)\<lparr>estado := e\<rparr>)\<rparr>"

text \<open>\<^verbatim>\<open>agregar_habitacion\<close>: append, no uniqueness check.\<close>

definition agregar_habitacion :: "Sistema \<Rightarrow> ref \<Rightarrow> Sistema" where
  "agregar_habitacion s h =
     s\<lparr>gestor := (gestor s)\<lparr>habitaciones := habitaciones (gestor s) @ [h]\<rparr>\<rparr>"

text \<open>
  \<^verbatim>\<open>modificar_habitacion\<close>: the \<^verbatim>\<open>for\<close> loop over \<^verbatim>\<open>self.habitaciones\<close>, returning at
  the first room whose number matches.
\<close>

fun modificar_habitacion_loop :: "Sistema \<Rightarrow> ref list \<Rightarrow> int \<Rightarrow> real \<Rightarrow> Sistema \<times> bool" where
  "modificar_habitacion_loop s [] num nuevo_precio = (s, False)"
| "modificar_habitacion_loop s (h # hs) num nuevo_precio =
     (if numero (obj_hab s h) = num then (set_precio s h nuevo_precio, True)
      else modificar_habitacion_loop s hs num nuevo_precio)"

definition modificar_habitacion :: "Sistema \<Rightarrow> int \<Rightarrow> real \<Rightarrow> Sistema \<times> bool" where
  "modificar_habitacion s num nuevo_precio =
     modificar_habitacion_loop s (habitaciones (gestor s)) num nuevo_precio"

text \<open>
  \<^verbatim>\<open>eliminar_habitacion\<close>: the list comprehension rebinds \<^verbatim>\<open>self.habitaciones\<close>; the
  method returns nothing.
\<close>

definition eliminar_habitacion :: "Sistema \<Rightarrow> int \<Rightarrow> Sistema" where
  "eliminar_habitacion s num =
     s\<lparr>gestor := (gestor s)
          \<lparr>habitaciones := filter (\<lambda>h. numero (obj_hab s h) \<noteq> num) (habitaciones (gestor s))\<rparr>\<rparr>"

definition registrar_cliente :: "Sistema \<Rightarrow> ref \<Rightarrow> Sistema" where
  "registrar_cliente s c = s\<lparr>gestor := (gestor s)\<lparr>clientes := clientes (gestor s) @ [c]\<rparr>\<rparr>"

fun actualizar_cliente_loop ::
  "Sistema \<Rightarrow> ref list \<Rightarrow> string \<Rightarrow> string \<Rightarrow> string \<Rightarrow> Sistema \<times> bool" where
  "actualizar_cliente_loop s [] d nuevos_nombres nuevos_apellidos = (s, False)"
| "actualizar_cliente_loop s (c # cs) d nuevos_nombres nuevos_apellidos =
     (if dpi (obj_cli s c) = d then (set_nombres s c nuevos_nombres nuevos_apellidos, True)
      else actualizar_cliente_loop s cs d nuevos_nombres nuevos_apellidos)"

definition actualizar_cliente ::
  "Sistema \<Rightarrow> string \<Rightarrow> string \<Rightarrow> string \<Rightarrow> Sistema \<times> bool" where
  "actualizar_cliente s d nuevos_nombres nuevos_apellidos =
     actualizar_cliente_loop s (clientes (gestor s)) d nuevos_nombres nuevos_apellidos"

text \<open>
  \<^verbatim>\<open>crear_reserva\<close>: guarded by the room's flag; on success the three statements of
  the body in their order.
\<close>

definition crear_reserva :: "Sistema \<Rightarrow> ref \<Rightarrow> Sistema \<times> bool" where
  "crear_reserva s reserva =
     (if disponible (obj_hab s (habitacion (obj_res s reserva))) then
        let s1 = set_disponible s (habitacion (obj_res s reserva)) False;
            s2 = s1\<lparr>gestor := (gestor s1)
                       \<lparr>GestorHotel.reservas := GestorHotel.reservas (gestor s1) @ [reserva]\<rparr>\<rparr>;
            s3 = append_reserva_cliente s2 (cliente (obj_res s2 reserva)) reserva
        in (s3, True)
      else (s, False))"

text \<open>
  The test of both reservation loops:
  \<^verbatim>\<open>reserva.cliente.dpi == cliente_dpi and reserva.habitacion.numero == numero_habitacion\<close>.
\<close>

definition coincide :: "Sistema \<Rightarrow> string \<Rightarrow> int \<Rightarrow> ref \<Rightarrow> bool" where
  "coincide s cliente_dpi numero_habitacion r \<longleftrightarrow>
     dpi (obj_cli s (cliente (obj_res s r))) = cliente_dpi \<and>
     numero (obj_hab s (habitacion (obj_res s r))) = numero_habitacion"

fun modificar_reserva_loop ::
  "Sistema \<Rightarrow> ref list \<Rightarrow> string \<Rightarrow> int \<Rightarrow> datetime \<Rightarrow> datetime \<Rightarrow> Sistema \<times> bool" where
  "modificar_reserva_loop s [] cliente_dpi numero_habitacion fe fs = (s, False)"
| "modificar_reserva_loop s (r # rs) cliente_dpi numero_habitacion fe fs =
     (if coincide s cliente_dpi numero_habitacion r then (set_fechas s r fe fs, True)
      else modificar_reserva_loop s rs cliente_dpi numero_habitacion fe fs)"

definition modificar_reserva ::
  "Sistema \<Rightarrow> string \<Rightarrow> int \<Rightarrow> datetime \<Rightarrow> datetime \<Rightarrow> Sistema \<times> bool" where
  "modificar_reserva s cliente_dpi numero_habitacion nueva_fecha_entrada nueva_fecha_salida =
     modificar_reserva_loop s (GestorHotel.reservas (gestor s)) cliente_dpi numero_habitacion
       nueva_fecha_entrada nueva_fecha_salida"

text \<open>
  \<^verbatim>\<open>cancelar_reserva\<close>: at the first match, the status is overwritten and then the
  room the reservation refers to is made available; the status is not read.
\<close>

fun cancelar_reserva_loop :: "Sistema \<Rightarrow> ref list \<Rightarrow> string \<Rightarrow> int \<Rightarrow> Sistema \<times> bool" where
  "cancelar_reserva_loop s [] cliente_dpi numero_habitacion = (s, False)"
| "cancelar_reserva_loop s (r # rs) cliente_dpi numero_habitacion =
     (if coincide s cliente_dpi numero_habitacion r then
        let s1 = set_estado s r ''Cancelada''
        in (set_disponible s1 (habitacion (obj_res s1 r)) True, True)
      else cancelar_reserva_loop s rs cliente_dpi numero_habitacion)"

definition cancelar_reserva :: "Sistema \<Rightarrow> string \<Rightarrow> int \<Rightarrow> Sistema \<times> bool" where
  "cancelar_reserva s cliente_dpi numero_habitacion =
     cancelar_reserva_loop s (GestorHotel.reservas (gestor s)) cliente_dpi numero_habitacion"

text \<open>\<^verbatim>\<open>consultar_disponibilidad\<close>: both dates are parameters the body never uses.\<close>

definition consultar_disponibilidad :: "Sistema \<Rightarrow> datetime \<Rightarrow> datetime \<Rightarrow> ref list" where
  "consultar_disponibilidad s fecha_inicio fecha_fin =
     filter (\<lambda>h. disponible (obj_hab s h)) (habitaciones (gestor s))"

fun obtener_cliente_loop :: "Sistema \<Rightarrow> ref list \<Rightarrow> string \<Rightarrow> ref option" where
  "obtener_cliente_loop s [] d = None"
| "obtener_cliente_loop s (c # cs) d =
     (if dpi (obj_cli s c) = d then Some c else obtener_cliente_loop s cs d)"

definition obtener_cliente :: "Sistema \<Rightarrow> string \<Rightarrow> ref option" where
  "obtener_cliente s d = obtener_cliente_loop s (clientes (gestor s)) d"

fun obtener_habitacion_loop :: "Sistema \<Rightarrow> ref list \<Rightarrow> int \<Rightarrow> ref option" where
  "obtener_habitacion_loop s [] num = None"
| "obtener_habitacion_loop s (h # hs) num =
     (if numero (obj_hab s h) = num then Some h else obtener_habitacion_loop s hs num)"

definition obtener_habitacion :: "Sistema \<Rightarrow> int \<Rightarrow> ref option" where
  "obtener_habitacion s num = obtener_habitacion_loop s (habitaciones (gestor s)) num"

section \<open>Call sequences\<close>

text \<open>
  A client of the management layer creates objects and calls the methods of the one
  \<^verbatim>\<open>GestorHotel\<close>. A call sequence is a list of such calls; a call that takes an
  object takes the address of one created earlier in the sequence. The three queries
  change nothing and are left out; so is \<^verbatim>\<open>aplicar_descuento\<close>, which rescales the
  price of one room and which the program never calls.
\<close>

datatype llamada =
    New_HabitacionEstandar int real
  | New_HabitacionSuite int real
  | New_HabitacionDeluxe int real
  | New_Cliente string string string
  | New_Reserva ref ref datetime datetime
  | Agregar_habitacion ref
  | Modificar_habitacion int real
  | Eliminar_habitacion int
  | Registrar_cliente ref
  | Actualizar_cliente string string string
  | Crear_reserva ref
  | Modificar_reserva string int datetime datetime
  | Cancelar_reserva string int

text \<open>A call is possible when the objects it is given exist.\<close>

fun permitida :: "Sistema \<Rightarrow> llamada \<Rightarrow> bool" where
  "permitida s (New_Reserva c h fe fs) \<longleftrightarrow> c < n_cli s \<and> h < n_hab s"
| "permitida s (Agregar_habitacion h) \<longleftrightarrow> h < n_hab s"
| "permitida s (Registrar_cliente c) \<longleftrightarrow> c < n_cli s"
| "permitida s (Crear_reserva r) \<longleftrightarrow> r < n_res s"
| "permitida s _ \<longleftrightarrow> True"

fun ejecutar :: "Sistema \<Rightarrow> llamada \<Rightarrow> Sistema" where
  "ejecutar s (New_HabitacionEstandar num precio) =
     fst (new_Habitacion s (HabitacionEstandar num precio))"
| "ejecutar s (New_HabitacionSuite num precio) =
     fst (new_Habitacion s (HabitacionSuite num precio))"
| "ejecutar s (New_HabitacionDeluxe num precio) =
     fst (new_Habitacion s (HabitacionDeluxe num precio))"
| "ejecutar s (New_Cliente ns aps d) = fst (new_Cliente s (Cliente_init ns aps d))"
| "ejecutar s (New_Reserva c h fe fs) = fst (new_Reserva s (Reserva_init c h fe fs))"
| "ejecutar s (Agregar_habitacion h) = agregar_habitacion s h"
| "ejecutar s (Modificar_habitacion num precio) = fst (modificar_habitacion s num precio)"
| "ejecutar s (Eliminar_habitacion num) = eliminar_habitacion s num"
| "ejecutar s (Registrar_cliente c) = registrar_cliente s c"
| "ejecutar s (Actualizar_cliente d ns aps) = fst (actualizar_cliente s d ns aps)"
| "ejecutar s (Crear_reserva r) = fst (crear_reserva s r)"
| "ejecutar s (Modificar_reserva d num fe fs) = fst (modificar_reserva s d num fe fs)"
| "ejecutar s (Cancelar_reserva d num) = fst (cancelar_reserva s d num)"

text \<open>Running a sequence; \<open>None\<close> when a call names an object that does not exist.\<close>

fun correr :: "Sistema \<Rightarrow> llamada list \<Rightarrow> Sistema option" where
  "correr s [] = Some s"
| "correr s (c # cs) = (if permitida s c then correr (ejecutar s c) cs else None)"

text \<open>
  A hotel used for the concrete checks below. Rooms 0 and 1 both carry number 101 and
  room 2 carries 202; clients 0 and 1 both carry the id \<^verbatim>\<open>CF1\<close>. Reservation 0
  (client 0, room 0) was booked and cancelled, reservation 1 (client 0, room 0) was
  booked afterwards, reservation 2 (client 1, room 2) exists but was never booked.
\<close>

definition llamadas_ejemplo :: "llamada list" where
  "llamadas_ejemplo =
     [New_HabitacionEstandar 101 100, New_HabitacionSuite 101 250, New_HabitacionDeluxe 202 400,
      Agregar_habitacion 0, Agregar_habitacion 1, Agregar_habitacion 2,
      New_Cliente ''Ana'' ''Lopez'' ''CF1'', New_Cliente ''Luis'' ''Paz'' ''CF1'',
      Registrar_cliente 0, Registrar_cliente 1,
      New_Reserva 0 0 10 12, Crear_reserva 0, Cancelar_reserva ''CF1'' 101,
      New_Reserva 0 0 20 22, Crear_reserva 1,
      New_Reserva 1 2 30 31]"

definition hotel_ejemplo :: Sistema where
  "hotel_ejemplo = foldl ejecutar inicial llamadas_ejemplo"

text \<open>The example hotel after reservation 2 has been booked.\<close>

definition hotel_reservado :: Sistema where
  "hotel_reservado = fst (crear_reserva hotel_ejemplo 2)"

text \<open>
  A hotel whose room 101 is replaced while it is booked: room 0 (number 101) is booked by
  client 0 with reservation 0, removed from the registry, and a new room 1 with the same
  number is added; reservation 1 is for client 0 and room 1. In \<open>hotel_renovado\<close>
  reservation 1 has not been booked yet, in \<open>hotel_dos_reservas\<close> it has.
\<close>

definition llamadas_renovacion :: "llamada list" where
  "llamadas_renovacion =
     [New_HabitacionEstandar 101 100, Agregar_habitacion 0,
      New_Cliente ''Ana'' ''Lopez'' ''CF1'', Registrar_cliente 0,
      New_Reserva 0 0 10 12, Crear_reserva 0,
      Eliminar_habitacion 101,
      New_HabitacionEstandar 101 100, Agregar_habitacion 1,
      New_Reserva 0 1 20 22]"

definition hotel_renovado :: Sistema where
  "hotel_renovado = foldl ejecutar inicial llamadas_renovacion"

definition hotel_dos_reservas :: Sistema where
  "hotel_dos_reservas = foldl ejecutar inicial (llamadas_renovacion @ [Crear_reserva 1])"

text \<open>
  Two properties of a state, used for the call sequences. In \<open>refs_vivas\<close> the
  reservation registry holds existing reservations and every existing reservation
  refers to an existing client and an existing room. In \<open>en_su_cliente\<close> every entry
  of the reservation registry is in the list of its client.
\<close>

definition refs_vivas :: "Sistema \<Rightarrow> bool" where
  "refs_vivas s \<longleftrightarrow>
     (\<forall>r\<in>set (GestorHotel.reservas (gestor s)). r < n_res s) \<and>
     (\<forall>r<n_res s. cliente (obj_res s r) < n_cli s \<and> habitacion (obj_res s r) < n_hab s)"

definition en_su_cliente :: "Sistema \<Rightarrow> bool" where
  "en_su_cliente s \<longleftrightarrow>
     (\<forall>r\<in>set (GestorHotel.reservas (gestor s)).
        r \<in> set (Cliente.reservas (obj_cli s (cliente (obj_res s r)))))"

text \<open>
  A session at the reception desk: one room, one client, who books the room, cancels,
  books it again, cancels again and books it a third time. Every booking creates a new
  \<^verbatim>\<open>Reserva\<close>, as the menu does.
\<close>

definition llamadas_doble_reserva :: "llamada list" where
  "llamadas_doble_reserva =
     [New_HabitacionEstandar 101 100, Agregar_habitacion 0,
      New_Cliente ''Ana'' ''Lopez'' ''CF1'', Registrar_cliente 0,
      New_Reserva 0 0 10 12, Crear_reserva 0, Cancelar_reserva ''CF1'' 101,
      New_Reserva 0 0 20 22, Crear_reserva 1, Cancelar_reserva ''CF1'' 101,
      New_Reserva 0 0 30 32, Crear_reserva 2]"

text \<open>
  Call sequences in which every cancellation that finds a reservation finds one that is
  still \<^verbatim>\<open>"Activa"\<close>, and the two properties they keep: no two distinct active
  reservations of the registry share a room, and the room of an active reservation of
  the registry is unavailable.
\<close>

fun cancela_activa :: "Sistema \<Rightarrow> llamada \<Rightarrow> bool" where
  "cancela_activa s (Cancelar_reserva d num) =
     (case find (coincide s d num) (GestorHotel.reservas (gestor s)) of
        None \<Rightarrow> True
      | Some r \<Rightarrow> estado (obj_res s r) = ''Activa'')"
| "cancela_activa s _ = True"

fun correr_sin_recancelar :: "Sistema \<Rightarrow> llamada list \<Rightarrow> Sistema option" where
  "correr_sin_recancelar s [] = Some s"
| "correr_sin_recancelar s (c # cs) =
     (if permitida s c \<and> cancela_activa s c then correr_sin_recancelar (ejecutar s c) cs
      else None)"

definition una_activa :: "Sistema \<Rightarrow> bool" where
  "una_activa s \<longleftrightarrow>
     (\<forall>r1\<in>set (GestorHotel.reservas (gestor s)).
      \<forall>r2\<in>set (GestorHotel.reservas (gestor s)).
        habitacion (obj_res s r1) = habitacion (obj_res s r2) \<and>
        estado (obj_res s r1) = ''Activa'' \<and> estado (obj_res s r2) = ''Activa'' \<longrightarrow>
        r1 = r2)"

definition ocupada_si_activa :: "Sistema \<Rightarrow> bool" where
  "ocupada_si_activa s \<longleftrightarrow>
     (\<forall>r\<in>set (GestorHotel.reservas (gestor s)).
        estado (obj_res s r) = ''Activa'' \<longrightarrow>
        \<not> disponible (obj_hab s (habitacion (obj_res s r))))"

text \<open>The calls that cancel.\<close>

fun es_cancelacion :: "llamada \<Rightarrow> bool" where
  "es_cancelacion (Cancelar_reserva d num) = True"
| "es_cancelacion _ = False"

section \<open>The loops find the first match\<close>

lemmas setters = set_precio_def set_disponible_def set_nombres_def append_reserva_cliente_def
  set_fechas_def set_estado_def

lemmas constructores = Habitacion_init_def HabitacionEstandar_def HabitacionSuite_def
  HabitacionDeluxe_def Cliente_init_def Reserva_init_def GestorHotel_init_def
  new_Habitacion_def new_Cliente_def new_Reserva_def inicial_def

lemmas operaciones = agregar_habitacion_def modificar_habitacion_def eliminar_habitacion_def
  registrar_cliente_def actualizar_cliente_def crear_reserva_def modificar_reserva_def
  cancelar_reserva_def obtener_cliente_def obtener_habitacion_def coincide_def

text \<open>The example hotel, object by object.\<close>

lemma hotel_ejemplo_gestor:
  "habitaciones (gestor hotel_ejemplo) = [0, 1, 2]"
  "clientes (gestor hotel_ejemplo) = [0, 1]"
  "GestorHotel.reservas (gestor hotel_ejemplo) = [0, 1]"
  "n_hab hotel_ejemplo = 3" "n_cli hotel_ejemplo = 2" "n_res hotel_ejemplo = 3"
  by (simp_all add: hotel_ejemplo_def llamadas_ejemplo_def operaciones setters constructores)

lemma hotel_ejemplo_hab:
  "obj_hab hotel_ejemplo 0 = (HabitacionEstandar 101 100)\<lparr>disponible := False\<rparr>"
  "obj_hab hotel_ejemplo (Suc 0) = HabitacionSuite 101 250"
  "obj_hab hotel_ejemplo 2 = HabitacionDeluxe 202 400"
  by (simp_all add: hotel_ejemplo_def llamadas_ejemplo_def operaciones setters constructores)

lemma hotel_ejemplo_cli:
  "obj_cli hotel_ejemplo 0 = (Cliente_init ''Ana'' ''Lopez'' ''CF1'')\<lparr>Cliente.reservas := [0, 1]\<rparr>"
  "obj_cli hotel_ejemplo (Suc 0) = Cliente_init ''Luis'' ''Paz'' ''CF1''"
  by (simp_all add: hotel_ejemplo_def llamadas_ejemplo_def operaciones setters constructores)

lemma hotel_ejemplo_res:
  "obj_res hotel_ejemplo 0 = (Reserva_init 0 0 10 12)\<lparr>estado := ''Cancelada''\<rparr>"
  "obj_res hotel_ejemplo (Suc 0) = Reserva_init 0 0 20 22"
  "obj_res hotel_ejemplo 2 = Reserva_init 1 2 30 31"
  by (simp_all add: hotel_ejemplo_def llamadas_ejemplo_def operaciones setters constructores)

lemmas hotel_ejemplo_simps = hotel_ejemplo_gestor hotel_ejemplo_hab hotel_ejemplo_cli
  hotel_ejemplo_res Habitacion_init_def HabitacionEstandar_def HabitacionSuite_def
  HabitacionDeluxe_def Cliente_init_def Reserva_init_def

lemma hotel_reservado_ok: "crear_reserva hotel_ejemplo 2 = (hotel_reservado, True)"
  by (simp add: hotel_reservado_def crear_reserva_def hotel_ejemplo_simps Let_def)

lemma hotel_reservado_simps:
  "habitaciones (gestor hotel_reservado) = [0, 1, 2]"
  "GestorHotel.reservas (gestor hotel_reservado) = [0, 1, 2]"
  "obj_hab hotel_reservado 2 = (HabitacionDeluxe 202 400)\<lparr>disponible := False\<rparr>"
  "obj_res hotel_reservado 2 = Reserva_init 1 2 30 31"
  "obj_cli hotel_reservado (Suc 0) =
     (Cliente_init ''Luis'' ''Paz'' ''CF1'')\<lparr>Cliente.reservas := [2]\<rparr>"
  by (simp_all add: hotel_reservado_def crear_reserva_def setters hotel_ejemplo_simps Let_def)

text \<open>The hotel with the replaced room, object by object.\<close>

lemma correr_llamadas_renovacion: "correr inicial llamadas_renovacion = Some hotel_renovado"
  by (simp add: hotel_renovado_def llamadas_renovacion_def operaciones setters constructores)

lemma hotel_renovado_simps:
  "habitaciones (gestor hotel_renovado) = [Suc 0]"
  "GestorHotel.reservas (gestor hotel_renovado) = [0]"
  "obj_hab hotel_renovado 0 = (HabitacionEstandar 101 100)\<lparr>disponible := False\<rparr>"
  "obj_hab hotel_renovado (Suc 0) = HabitacionEstandar 101 100"
  "obj_cli hotel_renovado 0 = (Cliente_init ''Ana'' ''Lopez'' ''CF1'')\<lparr>Cliente.reservas := [0]\<rparr>"
  "obj_res hotel_renovado 0 = Reserva_init 0 0 10 12"
  "obj_res hotel_renovado (Suc 0) = Reserva_init 0 1 20 22"
  by (simp_all add: hotel_renovado_def llamadas_renovacion_def operaciones setters constructores)

lemma hotel_dos_reservas_eq: "hotel_dos_reservas = fst (crear_reserva hotel_renovado 1)"
  by (simp add: hotel_dos_reservas_def hotel_renovado_def)

lemma correr_dos_reservas:
  "correr inicial (llamadas_renovacion @ [Crear_reserva 1]) = Some hotel_dos_reservas"
  by (simp add: hotel_dos_reservas_def llamadas_renovacion_def operaciones setters constructores)

lemma hotel_dos_reservas_simps:
  "habitaciones (gestor hotel_dos_reservas) = [Suc 0]"
  "GestorHotel.reservas (gestor hotel_dos_reservas) = [0, Suc 0]"
  "obj_hab hotel_dos_reservas 0 = (HabitacionEstandar 101 100)\<lparr>disponible := False\<rparr>"
  "obj_hab hotel_dos_reservas (Suc 0) = (HabitacionEstandar 101 100)\<lparr>disponible := False\<rparr>"
  "obj_cli hotel_dos_reservas 0 =
     (Cliente_init ''Ana'' ''Lopez'' ''CF1'')\<lparr>Cliente.reservas := [0, Suc 0]\<rparr>"
  "obj_res hotel_dos_reservas 0 = Reserva_init 0 0 10 12"
  "obj_res hotel_dos_reservas (Suc 0) = Reserva_init 0 1 20 22"
  by (simp_all add: hotel_dos_reservas_eq crear_reserva_def setters hotel_renovado_simps
      constructores Let_def)

lemmas renovado_simps = hotel_renovado_simps hotel_dos_reservas_simps Habitacion_init_def
  HabitacionEstandar_def Cliente_init_def Reserva_init_def

lemma modificar_habitacion_loop_find:
  "modificar_habitacion_loop s hs num p =
     (case find (\<lambda>h. numero (obj_hab s h) = num) hs of
        None \<Rightarrow> (s, False) | Some h \<Rightarrow> (set_precio s h p, True))"
  by (induction hs) simp_all

lemma actualizar_cliente_loop_find:
  "actualizar_cliente_loop s cs d ns aps =
     (case find (\<lambda>c. dpi (obj_cli s c) = d) cs of
        None \<Rightarrow> (s, False) | Some c \<Rightarrow> (set_nombres s c ns aps, True))"
  by (induction cs) simp_all

lemma modificar_reserva_loop_find:
  "modificar_reserva_loop s rs d num fe fs =
     (case find (coincide s d num) rs of
        None \<Rightarrow> (s, False) | Some r \<Rightarrow> (set_fechas s r fe fs, True))"
  by (induction rs) simp_all

lemma cancelar_reserva_loop_find:
  "cancelar_reserva_loop s rs d num =
     (case find (coincide s d num) rs of
        None \<Rightarrow> (s, False)
      | Some r \<Rightarrow>
          (set_disponible (set_estado s r ''Cancelada'') (habitacion (obj_res s r)) True, True))"
  by (induction rs) (simp_all add: set_estado_def)

lemma obtener_cliente_loop_find:
  "obtener_cliente_loop s cs d = find (\<lambda>c. dpi (obj_cli s c) = d) cs"
  by (induction cs) simp_all

lemma obtener_habitacion_loop_find:
  "obtener_habitacion_loop s hs num = find (\<lambda>h. numero (obj_hab s h) = num) hs"
  by (induction hs) simp_all

lemma find_first:
  "\<forall>x\<in>set pre. \<not> P x \<Longrightarrow> P a \<Longrightarrow> find P (pre @ a # suf) = Some a"
  by (induction pre) simp_all

lemma find_none: "find P xs = None \<longleftrightarrow> (\<forall>x\<in>set xs. \<not> P x)"
  by (induction xs) simp_all

lemma find_some_member: "find P xs = Some a \<Longrightarrow> a \<in> set xs \<and> P a"
  by (induction xs) (auto split: if_splits)

lemma find_numero_set_precio:
  "find (\<lambda>h. numero (obj_hab (set_precio s a p) h) = num) hs =
   find (\<lambda>h. numero (obj_hab s h) = num) hs"
  by (induction hs) (simp_all add: set_precio_def)

section \<open>Room prices\<close>

text \<open>
  C4: \<^verbatim>\<open>modificar_habitacion\<close> returns \<open>False\<close> exactly when no room of the registry
  carries the number, and then changes nothing; when it returns \<open>True\<close>,
  \<^verbatim>\<open>obtener_habitacion\<close> on the resulting state finds a room with that number whose
  \<^verbatim>\<open>precio_por_noche\<close> is the price given, whatever its sign (it is the room the same
  lookup found before the call).
\<close>

theorem modificar_habitacion_correct:
  "(snd (modificar_habitacion s num p) = False \<longleftrightarrow>
      (\<forall>h\<in>set (habitaciones (gestor s)). numero (obj_hab s h) \<noteq> num)) \<and>
   (snd (modificar_habitacion s num p) \<longrightarrow>
      (\<exists>h. obtener_habitacion (fst (modificar_habitacion s num p)) num = Some h \<and>
           obtener_habitacion s num = Some h \<and>
           numero (obj_hab (fst (modificar_habitacion s num p)) h) = num \<and>
           precio_por_noche (obj_hab (fst (modificar_habitacion s num p)) h) = p)) \<and>
   (\<not> snd (modificar_habitacion s num p) \<longrightarrow> fst (modificar_habitacion s num p) = s)"
proof (cases "find (\<lambda>h. numero (obj_hab s h) = num) (habitaciones (gestor s))")
  case None
  then have res: "modificar_habitacion s num p = (s, False)"
    by (simp add: modificar_habitacion_def modificar_habitacion_loop_find)
  from None have "\<forall>h\<in>set (habitaciones (gestor s)). numero (obj_hab s h) \<noteq> num"
    by (simp add: find_none)
  with res show ?thesis by simp
next
  case (Some a)
  then have na: "numero (obj_hab s a) = num" and ain: "a \<in> set (habitaciones (gestor s))"
    by (auto dest: find_some_member)
  have res: "modificar_habitacion s num p = (set_precio s a p, True)"
    using Some by (simp add: modificar_habitacion_def modificar_habitacion_loop_find)
  have "obtener_habitacion (set_precio s a p) num = Some a"
    using Some
    by (simp add: obtener_habitacion_def obtener_habitacion_loop_find find_numero_set_precio)
       (simp add: set_precio_def)
  moreover have "obtener_habitacion s num = Some a"
    using Some by (simp add: obtener_habitacion_def obtener_habitacion_loop_find)
  ultimately show ?thesis
    using na ain res by (auto simp: set_precio_def)
qed

theorem modificar_habitacion_correct_witness:
  "snd (modificar_habitacion hotel_ejemplo 101 (- 5)) \<and>
   obtener_habitacion (fst (modificar_habitacion hotel_ejemplo 101 (- 5))) 101 = Some 0 \<and>
   precio_por_noche (obj_hab (fst (modificar_habitacion hotel_ejemplo 101 (- 5))) 0) = - 5 \<and>
   list_all (\<lambda>h. numero (obj_hab hotel_ejemplo h) \<noteq> 303) (habitaciones (gestor hotel_ejemplo)) \<and>
   \<not> snd (modificar_habitacion hotel_ejemplo 303 75) \<and>
   fst (modificar_habitacion hotel_ejemplo 303 75) = hotel_ejemplo"
  using modificar_habitacion_correct [of hotel_ejemplo 101 "- 5"]
    modificar_habitacion_correct [of hotel_ejemplo 303 75]
  by (simp add: operaciones setters hotel_ejemplo_simps)

section \<open>Availability query\<close>

text \<open>
  C6: \<^verbatim>\<open>consultar_disponibilidad\<close> returns exactly the rooms of the room registry
  whose \<^verbatim>\<open>disponible\<close> flag is true, in registry order and with their multiplicity,
  and the result is the same for any two date ranges on the same state.
\<close>

theorem consultar_disponibilidad_exact:
  "consultar_disponibilidad s fecha_inicio fecha_fin =
     filter (\<lambda>h. disponible (obj_hab s h)) (habitaciones (gestor s)) \<and>
   set (consultar_disponibilidad s fecha_inicio fecha_fin) =
     {h \<in> set (habitaciones (gestor s)). disponible (obj_hab s h)} \<and>
   consultar_disponibilidad s fecha_inicio fecha_fin =
     consultar_disponibilidad s fecha_inicio' fecha_fin'"
  by (simp add: consultar_disponibilidad_def)

section \<open>Booking and cancelling\<close>

lemma find_snoc_cases:
  "P b \<Longrightarrow> \<exists>a. find P (xs @ [b]) = Some a \<and> P a \<and>
     (a \<in> set xs \<or> (a = b \<and> (\<forall>x\<in>set xs. \<not> P x)))"
  by (induction xs) auto

lemma crear_reserva_True:
  "disponible (obj_hab s (habitacion (obj_res s b))) \<Longrightarrow>
   crear_reserva s b =
     (s\<lparr>obj_hab := (obj_hab s)
           (habitacion (obj_res s b) := (obj_hab s (habitacion (obj_res s b)))\<lparr>disponible := False\<rparr>),
        gestor := (gestor s)\<lparr>GestorHotel.reservas := GestorHotel.reservas (gestor s) @ [b]\<rparr>,
        obj_cli := (obj_cli s)
           (cliente (obj_res s b) := (obj_cli s (cliente (obj_res s b)))
              \<lparr>Cliente.reservas := Cliente.reservas (obj_cli s (cliente (obj_res s b))) @ [b]\<rparr>)\<rparr>,
      True)"
  by (simp add: crear_reserva_def setters Let_def)

lemma crear_reserva_False:
  "\<not> disponible (obj_hab s (habitacion (obj_res s b))) \<Longrightarrow> crear_reserva s b = (s, False)"
  by (simp add: crear_reserva_def)

lemma crear_reserva_snd:
  "snd (crear_reserva s b) \<longleftrightarrow> disponible (obj_hab s (habitacion (obj_res s b)))"
  by (simp add: crear_reserva_def Let_def)

lemma coincide_crear_reserva:
  "coincide (fst (crear_reserva s b)) d num x = coincide s d num x"
  by (simp add: crear_reserva_def coincide_def setters Let_def)

lemma cancelar_reserva_first:
  "GestorHotel.reservas (gestor s) = pre @ r # suf \<Longrightarrow>
   \<forall>x\<in>set pre. \<not> coincide s d num x \<Longrightarrow> coincide s d num r \<Longrightarrow>
   cancelar_reserva s d num =
     (set_disponible (set_estado s r ''Cancelada'') (habitacion (obj_res s r)) True, True)"
  by (simp add: cancelar_reserva_def cancelar_reserva_loop_find find_first)

lemma cancelar_reserva_none:
  "\<forall>x\<in>set (GestorHotel.reservas (gestor s)). \<not> coincide s d num x \<Longrightarrow>
   cancelar_reserva s d num = (s, False)"
  by (simp add: cancelar_reserva_def cancelar_reserva_loop_find find_none [symmetric])

lemma cancelar_reserva_snd:
  "snd (cancelar_reserva s d num) \<longleftrightarrow>
     (\<exists>r\<in>set (GestorHotel.reservas (gestor s)). coincide s d num r)"
proof -
  have "snd (cancelar_reserva s d num) = False \<longleftrightarrow>
     (\<forall>r\<in>set (GestorHotel.reservas (gestor s)). \<not> coincide s d num r)"
    by (simp add: cancelar_reserva_def cancelar_reserva_loop_find find_none [symmetric]
        split: option.splits)
  then show ?thesis by blast
qed

lemma crear_cancelar:
  assumes ok: "crear_reserva s b = (s1, True)"
    and d: "d = dpi (obj_cli s (cliente (obj_res s b)))"
    and n: "num = numero (obj_hab s (habitacion (obj_res s b)))"
  shows "\<not> disponible (obj_hab s1 (habitacion (obj_res s b)))"
    and "snd (cancelar_reserva s1 d num)"
    and "(\<forall>x\<in>set (GestorHotel.reservas (gestor s)).
            coincide s d num x \<longrightarrow> habitacion (obj_res s x) = habitacion (obj_res s b)) \<Longrightarrow>
         disponible (obj_hab (fst (cancelar_reserva s1 d num)) (habitacion (obj_res s b)))"
    and "(\<forall>x\<in>set (GestorHotel.reservas (gestor s)). \<not> coincide s d num x) \<Longrightarrow>
         estado (obj_res (fst (cancelar_reserva s1 d num)) b) = ''Cancelada''"
proof -
  have disp: "disponible (obj_hab s (habitacion (obj_res s b)))"
    using ok crear_reserva_snd [of s b] by simp
  have s1: "s1 = fst (crear_reserva s b)" using ok by simp
  have regs: "GestorHotel.reservas (gestor s1) = GestorHotel.reservas (gestor s) @ [b]"
    and res1: "obj_res s1 = obj_res s"
    using ok crear_reserva_True [OF disp] by auto
  show "\<not> disponible (obj_hab s1 (habitacion (obj_res s b)))"
    using ok crear_reserva_True [OF disp] by auto
  have co: "\<And>x. coincide s1 d num x = coincide s d num x"
    unfolding s1 by (rule coincide_crear_reserva)
  have cb: "coincide s1 d num b"
    unfolding co by (simp add: coincide_def d n)
  obtain a where fa: "find (coincide s1 d num) (GestorHotel.reservas (gestor s) @ [b]) = Some a"
    and ca: "coincide s1 d num a"
    and alt: "a \<in> set (GestorHotel.reservas (gestor s)) \<or>
              (a = b \<and> (\<forall>x\<in>set (GestorHotel.reservas (gestor s)). \<not> coincide s1 d num x))"
    using find_snoc_cases [of "coincide s1 d num" b "GestorHotel.reservas (gestor s)"] cb
    by blast
  have canc: "cancelar_reserva s1 d num =
      (set_disponible (set_estado s1 a ''Cancelada'') (habitacion (obj_res s1 a)) True, True)"
    by (simp add: cancelar_reserva_def cancelar_reserva_loop_find regs fa)
  show "snd (cancelar_reserva s1 d num)" by (simp add: canc)
  show "disponible (obj_hab (fst (cancelar_reserva s1 d num)) (habitacion (obj_res s b)))"
    if "\<forall>x\<in>set (GestorHotel.reservas (gestor s)).
            coincide s d num x \<longrightarrow> habitacion (obj_res s x) = habitacion (obj_res s b)"
  proof -
    have "habitacion (obj_res s a) = habitacion (obj_res s b)"
      using alt ca that co by auto
    then show ?thesis by (simp add: canc setters res1)
  qed
  show "estado (obj_res (fst (cancelar_reserva s1 d num)) b) = ''Cancelada''"
    if "\<forall>x\<in>set (GestorHotel.reservas (gestor s)). \<not> coincide s d num x"
  proof -
    have "a = b" using alt ca that co by auto
    then show ?thesis by (simp add: canc setters)
  qed
qed

text \<open>
  C2: \<^verbatim>\<open>crear_reserva\<close> returns \<open>True\<close> exactly when the room of the reservation has
  \<^verbatim>\<open>disponible = True\<close>. It then sets that flag to \<open>False\<close>, appends the reservation to
  the registry of the \<^verbatim>\<open>GestorHotel\<close> and to the \<^verbatim>\<open>reservas\<close> of the reservation's
  client, and changes nothing else. Otherwise the state is unchanged. Booking any
  reservation for the same room directly after a successful booking returns \<open>False\<close>
  and leaves the state, so the number of rooms and of reservations, as it was.
\<close>

theorem crear_reserva_correct:
  "(snd (crear_reserva s b) \<longleftrightarrow> disponible (obj_hab s (habitacion (obj_res s b)))) \<and>
   (disponible (obj_hab s (habitacion (obj_res s b))) \<longrightarrow>
      crear_reserva s b =
        (s\<lparr>obj_hab := (obj_hab s)
              (habitacion (obj_res s b) :=
                 (obj_hab s (habitacion (obj_res s b)))\<lparr>disponible := False\<rparr>),
           gestor := (gestor s)
              \<lparr>GestorHotel.reservas := GestorHotel.reservas (gestor s) @ [b]\<rparr>,
           obj_cli := (obj_cli s)
              (cliente (obj_res s b) := (obj_cli s (cliente (obj_res s b)))
                 \<lparr>Cliente.reservas :=
                    Cliente.reservas (obj_cli s (cliente (obj_res s b))) @ [b]\<rparr>)\<rparr>,
         True) \<and>
      \<not> disponible (obj_hab (fst (crear_reserva s b)) (habitacion (obj_res s b))) \<and>
      GestorHotel.reservas (gestor (fst (crear_reserva s b))) =
        GestorHotel.reservas (gestor s) @ [b] \<and>
      Cliente.reservas (obj_cli (fst (crear_reserva s b)) (cliente (obj_res s b))) =
        Cliente.reservas (obj_cli s (cliente (obj_res s b))) @ [b]) \<and>
   (\<not> disponible (obj_hab s (habitacion (obj_res s b))) \<longrightarrow> crear_reserva s b = (s, False)) \<and>
   (crear_reserva s b = (s1, True) \<and> habitacion (obj_res s b') = habitacion (obj_res s b) \<longrightarrow>
      crear_reserva s1 b' = (s1, False) \<and>
      length (habitaciones (gestor (fst (crear_reserva s1 b')))) =
        length (habitaciones (gestor s1)) \<and>
      length (GestorHotel.reservas (gestor (fst (crear_reserva s1 b')))) =
        length (GestorHotel.reservas (gestor s1)))"
proof -
  have twice: "crear_reserva s1 b' = (s1, False)"
    if ok: "crear_reserva s b = (s1, True)"
      and same: "habitacion (obj_res s b') = habitacion (obj_res s b)"
  proof -
    have disp: "disponible (obj_hab s (habitacion (obj_res s b)))"
      using ok crear_reserva_snd [of s b] by simp
    have "obj_res s1 = obj_res s"
      and "\<not> disponible (obj_hab s1 (habitacion (obj_res s b)))"
      using ok crear_reserva_True [OF disp] by auto
    then show ?thesis using same by (simp add: crear_reserva_False)
  qed
  have yes: "disponible (obj_hab s (habitacion (obj_res s b))) \<longrightarrow>
      \<not> disponible (obj_hab (fst (crear_reserva s b)) (habitacion (obj_res s b))) \<and>
      GestorHotel.reservas (gestor (fst (crear_reserva s b))) =
        GestorHotel.reservas (gestor s) @ [b] \<and>
      Cliente.reservas (obj_cli (fst (crear_reserva s b)) (cliente (obj_res s b))) =
        Cliente.reservas (obj_cli s (cliente (obj_res s b))) @ [b]"
    by (simp add: crear_reserva_True)
  show ?thesis
    using crear_reserva_snd [of s b] crear_reserva_True [of s b] crear_reserva_False [of s b]
      twice yes
    by simp
qed

theorem crear_reserva_correct_witness:
  "disponible (obj_hab hotel_ejemplo (habitacion (obj_res hotel_ejemplo 2))) \<and>
   crear_reserva hotel_ejemplo 2 = (hotel_reservado, True) \<and>
   \<not> disponible (obj_hab hotel_reservado 2) \<and>
   GestorHotel.reservas (gestor hotel_reservado) = [0, 1, 2] \<and>
   Cliente.reservas (obj_cli hotel_reservado 1) = [2] \<and>
   habitacion (obj_res hotel_ejemplo 2) = habitacion (obj_res hotel_ejemplo 2) \<and>
   crear_reserva hotel_reservado 2 = (hotel_reservado, False) \<and>
   \<not> disponible (obj_hab hotel_ejemplo (habitacion (obj_res hotel_ejemplo 1))) \<and>
   crear_reserva hotel_ejemplo 1 = (hotel_ejemplo, False)"
  using crear_reserva_correct [of hotel_ejemplo 2 hotel_reservado 2]
    crear_reserva_correct [of hotel_ejemplo 1]
  by (simp add: hotel_ejemplo_simps hotel_reservado_simps hotel_reservado_ok)

text \<open>
  C3, as the code has it: \<^verbatim>\<open>cancelar_reserva\<close> returns \<open>False\<close> exactly when no
  reservation of the registry matches the pair (\<^verbatim>\<open>dpi\<close>, \<^verbatim>\<open>numero\<close>), and then changes
  nothing. Otherwise the first matching reservation in registry order gets status
  \<^verbatim>\<open>"Cancelada"\<close>, the room it refers to gets \<^verbatim>\<open>disponible = True\<close>, nothing else
  changes and the result is \<open>True\<close>; the status the reservation had before is not looked
  at. After a successful \<^verbatim>\<open>crear_reserva\<close> the room is unavailable, and the
  cancellation with the pair of that reservation then succeeds. It makes the booked room
  available provided that the earlier registry entries with the same pair refer to that
  same room object, so in particular when it selects the new reservation itself, which it
  then marks \<^verbatim>\<open>"Cancelada"\<close>. Without the proviso the last part fails, as the hotel
  with the replaced room shows after the witness.
\<close>

theorem cancelar_reserva_correct:
  "(snd (cancelar_reserva s d num) = False \<longleftrightarrow>
      (\<forall>r\<in>set (GestorHotel.reservas (gestor s)). \<not> coincide s d num r)) \<and>
   (\<not> snd (cancelar_reserva s d num) \<longrightarrow> fst (cancelar_reserva s d num) = s) \<and>
   (GestorHotel.reservas (gestor s) = pre @ r # suf \<and>
    (\<forall>x\<in>set pre. \<not> coincide s d num x) \<and> coincide s d num r \<longrightarrow>
      cancelar_reserva s d num =
        (s\<lparr>obj_res := (obj_res s)(r := (obj_res s r)\<lparr>estado := ''Cancelada''\<rparr>),
           obj_hab := (obj_hab s)
             (habitacion (obj_res s r) := (obj_hab s (habitacion (obj_res s r)))\<lparr>disponible := True\<rparr>)\<rparr>,
         True) \<and>
      estado (obj_res (fst (cancelar_reserva s d num)) r) = ''Cancelada'' \<and>
      disponible (obj_hab (fst (cancelar_reserva s d num)) (habitacion (obj_res s r)))) \<and>
   (crear_reserva s b = (s1, True) \<and>
    d' = dpi (obj_cli s (cliente (obj_res s b))) \<and>
    num' = numero (obj_hab s (habitacion (obj_res s b))) \<longrightarrow>
      \<not> disponible (obj_hab s1 (habitacion (obj_res s b))) \<and>
      snd (cancelar_reserva s1 d' num') \<and>
      ((\<forall>x\<in>set (GestorHotel.reservas (gestor s)).
          coincide s d' num' x \<longrightarrow> habitacion (obj_res s x) = habitacion (obj_res s b)) \<longrightarrow>
       disponible (obj_hab (fst (cancelar_reserva s1 d' num')) (habitacion (obj_res s b)))) \<and>
      ((\<forall>x\<in>set (GestorHotel.reservas (gestor s)). \<not> coincide s d' num' x) \<longrightarrow>
       estado (obj_res (fst (cancelar_reserva s1 d' num')) b) = ''Cancelada''))"
proof -
  have a: "snd (cancelar_reserva s d num) = False \<longleftrightarrow>
      (\<forall>r\<in>set (GestorHotel.reservas (gestor s)). \<not> coincide s d num r)"
    using cancelar_reserva_snd [of s d num] by blast
  have b: "\<not> snd (cancelar_reserva s d num) \<longrightarrow> fst (cancelar_reserva s d num) = s"
    using cancelar_reserva_snd [of s d num] cancelar_reserva_none [of s d num] by auto
  have c: "GestorHotel.reservas (gestor s) = pre @ r # suf \<and>
    (\<forall>x\<in>set pre. \<not> coincide s d num x) \<and> coincide s d num r \<longrightarrow>
      cancelar_reserva s d num =
        (s\<lparr>obj_res := (obj_res s)(r := (obj_res s r)\<lparr>estado := ''Cancelada''\<rparr>),
           obj_hab := (obj_hab s)
             (habitacion (obj_res s r) := (obj_hab s (habitacion (obj_res s r)))\<lparr>disponible := True\<rparr>)\<rparr>,
         True) \<and>
      estado (obj_res (fst (cancelar_reserva s d num)) r) = ''Cancelada'' \<and>
      disponible (obj_hab (fst (cancelar_reserva s d num)) (habitacion (obj_res s r)))"
    using cancelar_reserva_first [of s pre r suf d num] by (auto simp: setters)
  show ?thesis
    using a b c crear_cancelar [of s b s1 d' num'] by blast
qed


theorem cancelar_reserva_correct_witness:
  "GestorHotel.reservas (gestor hotel_ejemplo) = [] @ 0 # [1] \<and>
   coincide hotel_ejemplo ''CF1'' 101 0 \<and>
   estado (obj_res hotel_ejemplo 0) = ''Cancelada'' \<and>
   \<not> disponible (obj_hab hotel_ejemplo 0) \<and>
   snd (cancelar_reserva hotel_ejemplo ''CF1'' 101) \<and>
   estado (obj_res (fst (cancelar_reserva hotel_ejemplo ''CF1'' 101)) 0) = ''Cancelada'' \<and>
   estado (obj_res (fst (cancelar_reserva hotel_ejemplo ''CF1'' 101)) 1) = ''Activa'' \<and>
   disponible (obj_hab (fst (cancelar_reserva hotel_ejemplo ''CF1'' 101)) 0) \<and>
   list_all (\<lambda>r. \<not> coincide hotel_ejemplo ''CF9'' 101 r) (GestorHotel.reservas (gestor hotel_ejemplo)) \<and>
   cancelar_reserva hotel_ejemplo ''CF9'' 101 = (hotel_ejemplo, False) \<and>
   crear_reserva hotel_ejemplo 2 = (fst (crear_reserva hotel_ejemplo 2), True) \<and>
   ''CF1'' = dpi (obj_cli hotel_ejemplo (cliente (obj_res hotel_ejemplo 2))) \<and>
   202 = numero (obj_hab hotel_ejemplo (habitacion (obj_res hotel_ejemplo 2))) \<and>
   list_all (\<lambda>x. \<not> coincide hotel_ejemplo ''CF1'' 202 x) (GestorHotel.reservas (gestor hotel_ejemplo)) \<and>
   \<not> disponible (obj_hab (fst (crear_reserva hotel_ejemplo 2)) 2) \<and>
   snd (cancelar_reserva (fst (crear_reserva hotel_ejemplo 2)) ''CF1'' 202) \<and>
   disponible (obj_hab (fst (cancelar_reserva (fst (crear_reserva hotel_ejemplo 2)) ''CF1'' 202)) 2) \<and>
   estado (obj_res (fst (cancelar_reserva (fst (crear_reserva hotel_ejemplo 2)) ''CF1'' 202)) 2)
     = ''Cancelada''"
  using cancelar_reserva_correct [of hotel_ejemplo "''CF1''" 101 "[]" 0 "[1]" 2
      "fst (crear_reserva hotel_ejemplo 2)" "''CF1''" 202]
    cancelar_reserva_correct [of hotel_ejemplo "''CF9''" 101]
  by (simp add: operaciones setters hotel_ejemplo_simps prod_eq_iff Let_def)

text \<open>
  The proviso of C3 is needed. In \<open>hotel_renovado\<close> the booking of reservation 1
  (client \<^verbatim>\<open>CF1\<close>, room 1 with number 101) succeeds and makes room 1 unavailable. The
  cancellation with the pair of that booking succeeds as well, but it selects
  reservation 0, which carries the same pair and refers to the removed room 0: room 0
  becomes available, room 1 stays unavailable and reservation 1 stays active.
\<close>

theorem cancelar_reserva_otra_habitacion:
  "correr inicial llamadas_renovacion = Some hotel_renovado \<and>
   habitacion (obj_res hotel_renovado 1) = 1 \<and>
   dpi (obj_cli hotel_renovado (cliente (obj_res hotel_renovado 1))) = ''CF1'' \<and>
   numero (obj_hab hotel_renovado (habitacion (obj_res hotel_renovado 1))) = 101 \<and>
   crear_reserva hotel_renovado 1 = (hotel_dos_reservas, True) \<and>
   \<not> disponible (obj_hab hotel_dos_reservas 1) \<and>
   snd (cancelar_reserva hotel_dos_reservas ''CF1'' 101) \<and>
   \<not> disponible (obj_hab (fst (cancelar_reserva hotel_dos_reservas ''CF1'' 101)) 1) \<and>
   estado (obj_res (fst (cancelar_reserva hotel_dos_reservas ''CF1'' 101)) 1) = ''Activa'' \<and>
   disponible (obj_hab (fst (cancelar_reserva hotel_dos_reservas ''CF1'' 101)) 0) \<and>
   estado (obj_res (fst (cancelar_reserva hotel_dos_reservas ''CF1'' 101)) 0) = ''Cancelada''"
proof -
  have ok: "crear_reserva hotel_renovado 1 = (hotel_dos_reservas, True)"
    by (simp add: hotel_dos_reservas_eq crear_reserva_def renovado_simps Let_def)
  show ?thesis
    using correr_llamadas_renovacion ok
    by (simp add: cancelar_reserva_def coincide_def setters renovado_simps)
qed

section \<open>Changing the dates of a reservation\<close>

text \<open>
  C5: \<^verbatim>\<open>modificar_reserva\<close> overwrites both dates of the first reservation of the
  registry whose pair (\<^verbatim>\<open>dpi\<close> of its client, \<^verbatim>\<open>numero\<close> of its room) matches and
  returns \<open>True\<close>, whatever the status of that reservation, which it leaves as it is;
  when no reservation matches it returns \<open>False\<close> and the state is unchanged.
\<close>

theorem modificar_reserva_correct:
  "(snd (modificar_reserva s d num fe fs) = False \<longleftrightarrow>
      (\<forall>r\<in>set (GestorHotel.reservas (gestor s)). \<not> coincide s d num r)) \<and>
   (\<not> snd (modificar_reserva s d num fe fs) \<longrightarrow> fst (modificar_reserva s d num fe fs) = s) \<and>
   (GestorHotel.reservas (gestor s) = pre @ r # suf \<and>
    (\<forall>x\<in>set pre. \<not> coincide s d num x) \<and> coincide s d num r \<longrightarrow>
      modificar_reserva s d num fe fs =
        (s\<lparr>obj_res := (obj_res s)(r := (obj_res s r)\<lparr>fecha_entrada := fe, fecha_salida := fs\<rparr>)\<rparr>,
         True) \<and>
      fecha_entrada (obj_res (fst (modificar_reserva s d num fe fs)) r) = fe \<and>
      fecha_salida (obj_res (fst (modificar_reserva s d num fe fs)) r) = fs \<and>
      estado (obj_res (fst (modificar_reserva s d num fe fs)) r) = estado (obj_res s r))"
proof -
  have a: "snd (modificar_reserva s d num fe fs) = False \<longleftrightarrow>
      (\<forall>r\<in>set (GestorHotel.reservas (gestor s)). \<not> coincide s d num r)"
    by (simp add: modificar_reserva_def modificar_reserva_loop_find find_none [symmetric]
        split: option.splits)
  have b: "\<not> snd (modificar_reserva s d num fe fs) \<longrightarrow> fst (modificar_reserva s d num fe fs) = s"
    by (simp add: modificar_reserva_def modificar_reserva_loop_find split: option.splits)
  have c: "modificar_reserva s d num fe fs = (set_fechas s r fe fs, True)"
    if "GestorHotel.reservas (gestor s) = pre @ r # suf"
      "\<forall>x\<in>set pre. \<not> coincide s d num x" "coincide s d num r"
    using that by (simp add: modificar_reserva_def modificar_reserva_loop_find find_first)
  show ?thesis using a b c by (simp add: set_fechas_def)
qed

theorem modificar_reserva_correct_witness:
  "GestorHotel.reservas (gestor hotel_ejemplo) = [] @ 0 # [1] \<and>
   coincide hotel_ejemplo ''CF1'' 101 0 \<and>
   estado (obj_res hotel_ejemplo 0) = ''Cancelada'' \<and>
   snd (modificar_reserva hotel_ejemplo ''CF1'' 101 40 41) \<and>
   fecha_entrada (obj_res (fst (modificar_reserva hotel_ejemplo ''CF1'' 101 40 41)) 0) = 40 \<and>
   fecha_salida (obj_res (fst (modificar_reserva hotel_ejemplo ''CF1'' 101 40 41)) 0) = 41 \<and>
   fecha_entrada (obj_res (fst (modificar_reserva hotel_ejemplo ''CF1'' 101 40 41)) 1) = 20 \<and>
   list_all (\<lambda>r. \<not> coincide hotel_ejemplo ''CF1'' 202 r) (GestorHotel.reservas (gestor hotel_ejemplo)) \<and>
   modificar_reserva hotel_ejemplo ''CF1'' 202 40 41 = (hotel_ejemplo, False)"
  using modificar_reserva_correct [of hotel_ejemplo "''CF1''" 101 40 41 "[]" 0 "[1]"]
    modificar_reserva_correct [of hotel_ejemplo "''CF1''" 202 40 41]
  by (simp add: operaciones setters hotel_ejemplo_simps prod_eq_iff)

section \<open>Removing rooms\<close>

text \<open>
  C8: \<^verbatim>\<open>eliminar_habitacion\<close> keeps, in their order, exactly the rooms of the registry
  whose number differs from the one given, so every room with that number goes,
  duplicates included; when no room carries the number the state is unchanged. The
  method has no result: the model returns the new state and nothing else.
\<close>

theorem eliminar_habitacion_correct:
  "habitaciones (gestor (eliminar_habitacion s num)) =
     filter (\<lambda>h. numero (obj_hab s h) \<noteq> num) (habitaciones (gestor s)) \<and>
   (\<forall>h\<in>set (habitaciones (gestor (eliminar_habitacion s num))).
      numero (obj_hab (eliminar_habitacion s num) h) \<noteq> num) \<and>
   (\<forall>h\<in>set (habitaciones (gestor s)).
      numero (obj_hab s h) \<noteq> num \<longrightarrow> h \<in> set (habitaciones (gestor (eliminar_habitacion s num)))) \<and>
   ((\<forall>h\<in>set (habitaciones (gestor s)). numero (obj_hab s h) \<noteq> num) \<longrightarrow>
      eliminar_habitacion s num = s)"
proof -
  have "filter (\<lambda>h. numero (obj_hab s h) \<noteq> num) (habitaciones (gestor s)) = habitaciones (gestor s)"
    if "\<forall>h\<in>set (habitaciones (gestor s)). numero (obj_hab s h) \<noteq> num"
    using that by (simp add: filter_id_conv)
  then show ?thesis by (auto simp: eliminar_habitacion_def)
qed

theorem eliminar_habitacion_correct_witness:
  "habitaciones (gestor (eliminar_habitacion hotel_ejemplo 101)) = [2] \<and>
   list_all (\<lambda>h. numero (obj_hab hotel_ejemplo h) \<noteq> 303) (habitaciones (gestor hotel_ejemplo)) \<and>
   eliminar_habitacion hotel_ejemplo 303 = hotel_ejemplo"
  using eliminar_habitacion_correct [of hotel_ejemplo 101]
    eliminar_habitacion_correct [of hotel_ejemplo 303]
  by (simp add: hotel_ejemplo_simps)

lemma coincide_eliminar_habitacion:
  "coincide (eliminar_habitacion s num) d m = coincide s d m"
  by (simp add: fun_eq_iff coincide_def eliminar_habitacion_def)

lemma find_coincide_cong:
  "(\<And>x. coincide s' d m x = coincide s d m x) \<Longrightarrow>
   find (coincide s' d m) rs = find (coincide s d m) rs"
  by (induction rs) simp_all

lemma cancelar_eliminar_commute:
  "cancelar_reserva (eliminar_habitacion s num) d m =
     (eliminar_habitacion (fst (cancelar_reserva s d m)) num, snd (cancelar_reserva s d m))"
proof (cases "find (coincide s d m) (GestorHotel.reservas (gestor s))")
  case None
  then show ?thesis
    by (simp add: cancelar_reserva_def cancelar_reserva_loop_find coincide_eliminar_habitacion)
       (simp add: eliminar_habitacion_def)
next
  case (Some r)
  let ?s' = "set_disponible (set_estado s r ''Cancelada'') (habitacion (obj_res s r)) True"
  have num: "\<And>h. numero (obj_hab ?s' h) = numero (obj_hab s h)"
    by (simp add: setters)
  have "eliminar_habitacion ?s' num =
      set_disponible (set_estado (eliminar_habitacion s num) r ''Cancelada'')
        (habitacion (obj_res s r)) True"
    unfolding eliminar_habitacion_def num by (simp add: setters)
  moreover have "obj_res (eliminar_habitacion s num) = obj_res s"
    and "GestorHotel.reservas (gestor (eliminar_habitacion s num)) =
      GestorHotel.reservas (gestor s)"
    by (simp_all add: eliminar_habitacion_def)
  ultimately show ?thesis
    using Some
    by (simp add: cancelar_reserva_def cancelar_reserva_loop_find coincide_eliminar_habitacion)
qed

lemma find_mid_cases:
  "P b \<Longrightarrow> \<exists>a. find P (xs @ b # ys) = Some a \<and> P a \<and> (a \<in> set xs \<or> a = b)"
  by (induction xs) auto

lemma cancelar_eliminar_misma_habitacion:
  assumes regs: "GestorHotel.reservas (gestor s) = pre @ r # suf"
    and co: "coincide s d num r"
    and same: "\<forall>x\<in>set pre. coincide s d num x \<longrightarrow>
                 habitacion (obj_res s x) = habitacion (obj_res s r)"
  shows "snd (cancelar_reserva (eliminar_habitacion s num) d num) \<and>
    habitacion (obj_res s r) \<notin>
      set (habitaciones (gestor (fst (cancelar_reserva (eliminar_habitacion s num) d num)))) \<and>
    disponible (obj_hab (fst (cancelar_reserva (eliminar_habitacion s num) d num))
      (habitacion (obj_res s r)))"
proof -
  obtain a where fa: "find (coincide s d num) (pre @ r # suf) = Some a"
    and ca: "coincide s d num a" and alt: "a \<in> set pre \<or> a = r"
    using find_mid_cases [of "coincide s d num" r pre suf] co by blast
  have hab: "habitacion (obj_res s a) = habitacion (obj_res s r)"
    using alt ca same by auto
  have canc: "cancelar_reserva s d num =
      (set_disponible (set_estado s a ''Cancelada'') (habitacion (obj_res s a)) True, True)"
    by (simp add: cancelar_reserva_def cancelar_reserva_loop_find regs fa)
  have "numero (obj_hab s (habitacion (obj_res s r))) = num"
    using co by (simp add: coincide_def)
  then show ?thesis
    by (simp add: cancelar_eliminar_commute canc hab)
       (simp add: eliminar_habitacion_def setters)
qed

text \<open>
  C10, as the code has it: \<^verbatim>\<open>eliminar_habitacion\<close> changes the room registry and
  nothing else: every object of the store (rooms, clients with their reservation lists,
  reservations), the client registry and the reservation registry are as before, so
  reservations that refer to a removed room remain. Removing rooms and cancelling
  commute, so a cancellation after the removal does what it would have done before it:
  with the number of the removed rooms it succeeds whenever a reservation of the
  registry matches, and it marks the first matching reservation \<^verbatim>\<open>"Cancelada"\<close> and
  sets \<^verbatim>\<open>disponible\<close> on the room object of that reservation, which is no longer in the
  room registry. For a matching reservation further down the registry, the flag that is
  set is the one of its own room provided that the earlier entries with the same pair
  refer to that same room object. Without the proviso this fails, as the hotel with the
  replaced room shows after the witness.
\<close>

theorem eliminar_habitacion_frame:
  "obj_hab (eliminar_habitacion s num) = obj_hab s \<and>
   obj_cli (eliminar_habitacion s num) = obj_cli s \<and>
   obj_res (eliminar_habitacion s num) = obj_res s \<and>
   clientes (gestor (eliminar_habitacion s num)) = clientes (gestor s) \<and>
   GestorHotel.reservas (gestor (eliminar_habitacion s num)) = GestorHotel.reservas (gestor s) \<and>
   n_hab (eliminar_habitacion s num) = n_hab s \<and>
   n_cli (eliminar_habitacion s num) = n_cli s \<and>
   n_res (eliminar_habitacion s num) = n_res s \<and>
   cancelar_reserva (eliminar_habitacion s num) d m =
     (eliminar_habitacion (fst (cancelar_reserva s d m)) num, snd (cancelar_reserva s d m)) \<and>
   ((\<exists>x\<in>set (GestorHotel.reservas (gestor s)). coincide s d num x) \<longrightarrow>
      snd (cancelar_reserva (eliminar_habitacion s num) d num)) \<and>
   (GestorHotel.reservas (gestor s) = pre @ r # suf \<and>
    (\<forall>x\<in>set pre. \<not> coincide s d num x) \<and> coincide s d num r \<longrightarrow>
      habitacion (obj_res s r) \<notin>
        set (habitaciones (gestor (fst (cancelar_reserva (eliminar_habitacion s num) d num)))) \<and>
      disponible (obj_hab (fst (cancelar_reserva (eliminar_habitacion s num) d num))
        (habitacion (obj_res s r))) \<and>
      estado (obj_res (fst (cancelar_reserva (eliminar_habitacion s num) d num)) r) =
        ''Cancelada'') \<and>
   (GestorHotel.reservas (gestor s) = pre' @ r' # suf' \<and> coincide s d num r' \<and>
    (\<forall>x\<in>set pre'. coincide s d num x \<longrightarrow>
       habitacion (obj_res s x) = habitacion (obj_res s r')) \<longrightarrow>
      snd (cancelar_reserva (eliminar_habitacion s num) d num) \<and>
      habitacion (obj_res s r') \<notin>
        set (habitaciones (gestor (fst (cancelar_reserva (eliminar_habitacion s num) d num)))) \<and>
      disponible (obj_hab (fst (cancelar_reserva (eliminar_habitacion s num) d num))
        (habitacion (obj_res s r'))))"
proof -
  have frame: "obj_hab (eliminar_habitacion s num) = obj_hab s \<and>
   obj_cli (eliminar_habitacion s num) = obj_cli s \<and>
   obj_res (eliminar_habitacion s num) = obj_res s \<and>
   clientes (gestor (eliminar_habitacion s num)) = clientes (gestor s) \<and>
   GestorHotel.reservas (gestor (eliminar_habitacion s num)) = GestorHotel.reservas (gestor s) \<and>
   n_hab (eliminar_habitacion s num) = n_hab s \<and>
   n_cli (eliminar_habitacion s num) = n_cli s \<and>
   n_res (eliminar_habitacion s num) = n_res s"
    by (simp add: eliminar_habitacion_def)
  have ok: "snd (cancelar_reserva (eliminar_habitacion s num) d num)"
    if "\<exists>x\<in>set (GestorHotel.reservas (gestor s)). coincide s d num x"
    using that by (simp add: cancelar_eliminar_commute cancelar_reserva_snd)
  have first: "habitacion (obj_res s r) \<notin>
        set (habitaciones (gestor (fst (cancelar_reserva (eliminar_habitacion s num) d num)))) \<and>
      disponible (obj_hab (fst (cancelar_reserva (eliminar_habitacion s num) d num))
        (habitacion (obj_res s r))) \<and>
      estado (obj_res (fst (cancelar_reserva (eliminar_habitacion s num) d num)) r) =
        ''Cancelada''"
    if "GestorHotel.reservas (gestor s) = pre @ r # suf"
      "\<forall>x\<in>set pre. \<not> coincide s d num x" "coincide s d num r"
  proof -
    have "numero (obj_hab s (habitacion (obj_res s r))) = num"
      using that(3) by (simp add: coincide_def)
    then show ?thesis
      by (simp add: cancelar_eliminar_commute cancelar_reserva_first [OF that])
         (simp add: eliminar_habitacion_def setters)
  qed
  show ?thesis
    using frame ok first cancelar_eliminar_commute [of s num d m]
      cancelar_eliminar_misma_habitacion [of s pre' r' suf' d num]
    by blast
qed

theorem eliminar_habitacion_frame_witness:
  "GestorHotel.reservas (gestor hotel_ejemplo) = [] @ 0 # [1] \<and>
   coincide hotel_ejemplo ''CF1'' 101 0 \<and>
   habitacion (obj_res hotel_ejemplo 0) = 0 \<and>
   habitaciones (gestor (eliminar_habitacion hotel_ejemplo 101)) = [2] \<and>
   GestorHotel.reservas (gestor (eliminar_habitacion hotel_ejemplo 101)) = [0, 1] \<and>
   \<not> disponible (obj_hab (eliminar_habitacion hotel_ejemplo 101) 0) \<and>
   snd (cancelar_reserva (eliminar_habitacion hotel_ejemplo 101) ''CF1'' 101) \<and>
   0 \<notin> set (habitaciones
     (gestor (fst (cancelar_reserva (eliminar_habitacion hotel_ejemplo 101) ''CF1'' 101)))) \<and>
   disponible (obj_hab
     (fst (cancelar_reserva (eliminar_habitacion hotel_ejemplo 101) ''CF1'' 101)) 0) \<and>
   GestorHotel.reservas (gestor hotel_ejemplo) = [0] @ 1 # [] \<and>
   coincide hotel_ejemplo ''CF1'' 101 1 \<and>
   list_all (\<lambda>x. habitacion (obj_res hotel_ejemplo x) = habitacion (obj_res hotel_ejemplo 1)) [0] \<and>
   disponible (obj_hab
     (fst (cancelar_reserva (eliminar_habitacion hotel_ejemplo 101) ''CF1'' 101))
     (habitacion (obj_res hotel_ejemplo 1)))"
proof -
  have h1: "GestorHotel.reservas (gestor hotel_ejemplo) = [] @ 0 # [1]"
    and h2: "\<forall>x\<in>set []. \<not> coincide hotel_ejemplo ''CF1'' 101 x"
    and h3: "coincide hotel_ejemplo ''CF1'' 101 0"
    and h4: "\<exists>x\<in>set (GestorHotel.reservas (gestor hotel_ejemplo)).
               coincide hotel_ejemplo ''CF1'' 101 x"
    and r0: "habitacion (obj_res hotel_ejemplo 0) = 0"
    and h5: "GestorHotel.reservas (gestor hotel_ejemplo) = [0] @ 1 # []"
    and h6: "coincide hotel_ejemplo ''CF1'' 101 1"
    and h7: "\<forall>x\<in>set [0]. coincide hotel_ejemplo ''CF1'' 101 x \<longrightarrow>
               habitacion (obj_res hotel_ejemplo x) = habitacion (obj_res hotel_ejemplo 1)"
    and r1: "habitacion (obj_res hotel_ejemplo 1) = 0"
    by (simp_all add: hotel_ejemplo_simps coincide_def)
  have vals: "habitaciones (gestor (eliminar_habitacion hotel_ejemplo 101)) = [2]"
    "\<not> disponible (obj_hab (eliminar_habitacion hotel_ejemplo 101) 0)"
    by (simp_all add: hotel_ejemplo_simps eliminar_habitacion_def)
  have c: "GestorHotel.reservas (gestor (eliminar_habitacion hotel_ejemplo 101)) =
      GestorHotel.reservas (gestor hotel_ejemplo) \<and>
    snd (cancelar_reserva (eliminar_habitacion hotel_ejemplo 101) ''CF1'' 101) \<and>
    habitacion (obj_res hotel_ejemplo 0) \<notin> set (habitaciones
     (gestor (fst (cancelar_reserva (eliminar_habitacion hotel_ejemplo 101) ''CF1'' 101)))) \<and>
    disponible (obj_hab
     (fst (cancelar_reserva (eliminar_habitacion hotel_ejemplo 101) ''CF1'' 101))
     (habitacion (obj_res hotel_ejemplo 0))) \<and>
    disponible (obj_hab
     (fst (cancelar_reserva (eliminar_habitacion hotel_ejemplo 101) ''CF1'' 101))
     (habitacion (obj_res hotel_ejemplo 1)))"
    using eliminar_habitacion_frame [of hotel_ejemplo 101 "''CF1''" 101 "[]" 0 "[1]"
        "[0]" 1 "[]"]
      h1 h2 h3 h4 h5 h6 h7
    by blast
  show ?thesis
    using h1 h3 h5 h6 r0 r1 vals c by (simp add: hotel_ejemplo_simps)
qed

text \<open>
  The proviso of C10 is needed. In \<open>hotel_dos_reservas\<close> room 1 (number 101) is booked
  by reservation 1 of client \<^verbatim>\<open>CF1\<close>. Removing number 101 takes room 1 out of the
  registry and leaves both reservations. The cancellation with the pair of
  reservation 1 succeeds, but it selects reservation 0 and sets the flag of room 0, the
  room with the same number that was removed earlier: the flag of room 1 is not set and
  reservation 1 stays active.
\<close>

theorem cancelar_tras_eliminar_otra_habitacion:
  "correr inicial (llamadas_renovacion @ [Crear_reserva 1]) = Some hotel_dos_reservas \<and>
   habitaciones (gestor hotel_dos_reservas) = [1] \<and>
   habitaciones (gestor (eliminar_habitacion hotel_dos_reservas 101)) = [] \<and>
   GestorHotel.reservas (gestor (eliminar_habitacion hotel_dos_reservas 101)) = [0, 1] \<and>
   habitacion (obj_res (eliminar_habitacion hotel_dos_reservas 101) 1) = 1 \<and>
   coincide (eliminar_habitacion hotel_dos_reservas 101) ''CF1'' 101 1 \<and>
   \<not> disponible (obj_hab (eliminar_habitacion hotel_dos_reservas 101) 1) \<and>
   snd (cancelar_reserva (eliminar_habitacion hotel_dos_reservas 101) ''CF1'' 101) \<and>
   \<not> disponible (obj_hab
       (fst (cancelar_reserva (eliminar_habitacion hotel_dos_reservas 101) ''CF1'' 101)) 1) \<and>
   estado (obj_res
       (fst (cancelar_reserva (eliminar_habitacion hotel_dos_reservas 101) ''CF1'' 101)) 1) =
     ''Activa'' \<and>
   disponible (obj_hab
       (fst (cancelar_reserva (eliminar_habitacion hotel_dos_reservas 101) ''CF1'' 101)) 0)"
  using correr_dos_reservas
  by (simp add: cancelar_reserva_def eliminar_habitacion_def coincide_def setters renovado_simps)

section \<open>First match wins\<close>

lemma modificar_habitacion_first:
  "habitaciones (gestor s) = pre @ a # suf \<Longrightarrow>
   \<forall>x\<in>set pre. numero (obj_hab s x) \<noteq> num \<Longrightarrow> numero (obj_hab s a) = num \<Longrightarrow>
   modificar_habitacion s num p = (set_precio s a p, True)"
  by (simp add: modificar_habitacion_def modificar_habitacion_loop_find find_first)

lemma obtener_habitacion_first:
  "habitaciones (gestor s) = pre @ a # suf \<Longrightarrow>
   \<forall>x\<in>set pre. numero (obj_hab s x) \<noteq> num \<Longrightarrow> numero (obj_hab s a) = num \<Longrightarrow>
   obtener_habitacion s num = Some a"
  by (simp add: obtener_habitacion_def obtener_habitacion_loop_find find_first)

lemma actualizar_cliente_first:
  "clientes (gestor s) = pre @ c # suf \<Longrightarrow>
   \<forall>x\<in>set pre. dpi (obj_cli s x) \<noteq> d \<Longrightarrow> dpi (obj_cli s c) = d \<Longrightarrow>
   actualizar_cliente s d ns aps = (set_nombres s c ns aps, True)"
  by (simp add: actualizar_cliente_def actualizar_cliente_loop_find find_first)

lemma obtener_cliente_first:
  "clientes (gestor s) = pre @ c # suf \<Longrightarrow>
   \<forall>x\<in>set pre. dpi (obj_cli s x) \<noteq> d \<Longrightarrow> dpi (obj_cli s c) = d \<Longrightarrow>
   obtener_cliente s d = Some c"
  by (simp add: obtener_cliente_def obtener_cliente_loop_find find_first)

lemma modificar_reserva_first:
  "GestorHotel.reservas (gestor s) = pre @ r # suf \<Longrightarrow>
   \<forall>x\<in>set pre. \<not> coincide s d num x \<Longrightarrow> coincide s d num r \<Longrightarrow>
   modificar_reserva s d num fe fs = (set_fechas s r fe fs, True)"
  by (simp add: modificar_reserva_def modificar_reserva_loop_find find_first)

text \<open>
  C7: when a registry is \<open>pre @ a # suf\<close> with no entry of \<open>pre\<close> matching the key
  and \<open>a\<close> matching it, each of the six scanning operations acts on \<open>a\<close>: the two
  lookups return \<open>a\<close>, and the four updates return \<open>True\<close> with a state that differs
  from the old one only in the object \<open>a\<close> (for \<^verbatim>\<open>cancelar_reserva\<close> also in the room
  of \<open>a\<close>). The results do not depend on \<open>suf\<close>: whatever follows the first match,
  duplicates of the key included, is neither looked at nor changed, every object other
  than the one acted on being left as it was.
\<close>

theorem first_match_wins:
  "(habitaciones (gestor s) = hpre @ h # hsuf \<and>
    (\<forall>x\<in>set hpre. numero (obj_hab s x) \<noteq> num) \<and> numero (obj_hab s h) = num \<longrightarrow>
      obtener_habitacion s num = Some h \<and>
      modificar_habitacion s num p =
        (s\<lparr>obj_hab := (obj_hab s)(h := (obj_hab s h)\<lparr>precio_por_noche := p\<rparr>)\<rparr>, True) \<and>
      (\<forall>x. x \<noteq> h \<longrightarrow> obj_hab (fst (modificar_habitacion s num p)) x = obj_hab s x)) \<and>
   (clientes (gestor s) = cpre @ c # csuf \<and>
    (\<forall>x\<in>set cpre. dpi (obj_cli s x) \<noteq> d) \<and> dpi (obj_cli s c) = d \<longrightarrow>
      obtener_cliente s d = Some c \<and>
      actualizar_cliente s d ns aps =
        (s\<lparr>obj_cli := (obj_cli s)(c := (obj_cli s c)\<lparr>nombres := ns, apellidos := aps\<rparr>)\<rparr>,
         True) \<and>
      (\<forall>x. x \<noteq> c \<longrightarrow> obj_cli (fst (actualizar_cliente s d ns aps)) x = obj_cli s x)) \<and>
   (GestorHotel.reservas (gestor s) = rpre @ r # rsuf \<and>
    (\<forall>x\<in>set rpre. \<not> coincide s d num x) \<and> coincide s d num r \<longrightarrow>
      modificar_reserva s d num fe fs =
        (s\<lparr>obj_res := (obj_res s)(r := (obj_res s r)\<lparr>fecha_entrada := fe, fecha_salida := fs\<rparr>)\<rparr>,
         True) \<and>
      (\<forall>x. x \<noteq> r \<longrightarrow> obj_res (fst (modificar_reserva s d num fe fs)) x = obj_res s x) \<and>
      cancelar_reserva s d num =
        (s\<lparr>obj_res := (obj_res s)(r := (obj_res s r)\<lparr>estado := ''Cancelada''\<rparr>),
           obj_hab := (obj_hab s)
             (habitacion (obj_res s r) :=
                (obj_hab s (habitacion (obj_res s r)))\<lparr>disponible := True\<rparr>)\<rparr>,
         True) \<and>
      (\<forall>x. x \<noteq> r \<longrightarrow> obj_res (fst (cancelar_reserva s d num)) x = obj_res s x) \<and>
      (\<forall>x. x \<noteq> habitacion (obj_res s r) \<longrightarrow>
           obj_hab (fst (cancelar_reserva s d num)) x = obj_hab s x))"
proof -
  have hab: "obtener_habitacion s num = Some h \<and>
      modificar_habitacion s num p =
        (s\<lparr>obj_hab := (obj_hab s)(h := (obj_hab s h)\<lparr>precio_por_noche := p\<rparr>)\<rparr>, True) \<and>
      (\<forall>x. x \<noteq> h \<longrightarrow> obj_hab (fst (modificar_habitacion s num p)) x = obj_hab s x)"
    if "habitaciones (gestor s) = hpre @ h # hsuf"
      "\<forall>x\<in>set hpre. numero (obj_hab s x) \<noteq> num" "numero (obj_hab s h) = num"
    using obtener_habitacion_first [OF that] modificar_habitacion_first [OF that, of p]
    by (simp add: set_precio_def)
  have cli: "obtener_cliente s d = Some c \<and>
      actualizar_cliente s d ns aps =
        (s\<lparr>obj_cli := (obj_cli s)(c := (obj_cli s c)\<lparr>nombres := ns, apellidos := aps\<rparr>)\<rparr>,
         True) \<and>
      (\<forall>x. x \<noteq> c \<longrightarrow> obj_cli (fst (actualizar_cliente s d ns aps)) x = obj_cli s x)"
    if "clientes (gestor s) = cpre @ c # csuf"
      "\<forall>x\<in>set cpre. dpi (obj_cli s x) \<noteq> d" "dpi (obj_cli s c) = d"
    using obtener_cliente_first [OF that] actualizar_cliente_first [OF that, of ns aps]
    by (simp add: set_nombres_def)
  have res: "modificar_reserva s d num fe fs =
        (s\<lparr>obj_res := (obj_res s)(r := (obj_res s r)\<lparr>fecha_entrada := fe, fecha_salida := fs\<rparr>)\<rparr>,
         True) \<and>
      (\<forall>x. x \<noteq> r \<longrightarrow> obj_res (fst (modificar_reserva s d num fe fs)) x = obj_res s x) \<and>
      cancelar_reserva s d num =
        (s\<lparr>obj_res := (obj_res s)(r := (obj_res s r)\<lparr>estado := ''Cancelada''\<rparr>),
           obj_hab := (obj_hab s)
             (habitacion (obj_res s r) :=
                (obj_hab s (habitacion (obj_res s r)))\<lparr>disponible := True\<rparr>)\<rparr>,
         True) \<and>
      (\<forall>x. x \<noteq> r \<longrightarrow> obj_res (fst (cancelar_reserva s d num)) x = obj_res s x) \<and>
      (\<forall>x. x \<noteq> habitacion (obj_res s r) \<longrightarrow>
           obj_hab (fst (cancelar_reserva s d num)) x = obj_hab s x)"
    if "GestorHotel.reservas (gestor s) = rpre @ r # rsuf"
      "\<forall>x\<in>set rpre. \<not> coincide s d num x" "coincide s d num r"
    using modificar_reserva_first [OF that, of fe fs] cancelar_reserva_first [OF that]
    by (simp add: setters)
  show ?thesis using hab cli res by blast
qed

theorem first_match_wins_witness:
  "habitaciones (gestor hotel_ejemplo) = [] @ 0 # [1, 2] \<and>
   numero (obj_hab hotel_ejemplo 0) = 101 \<and> numero (obj_hab hotel_ejemplo 1) = 101 \<and>
   obtener_habitacion hotel_ejemplo 101 = Some 0 \<and>
   precio_por_noche (obj_hab (fst (modificar_habitacion hotel_ejemplo 101 75)) 0) = 75 \<and>
   precio_por_noche (obj_hab (fst (modificar_habitacion hotel_ejemplo 101 75)) 1) = 250 \<and>
   clientes (gestor hotel_ejemplo) = [] @ 0 # [1] \<and>
   dpi (obj_cli hotel_ejemplo 0) = ''CF1'' \<and> dpi (obj_cli hotel_ejemplo 1) = ''CF1'' \<and>
   obtener_cliente hotel_ejemplo ''CF1'' = Some 0 \<and>
   nombres (obj_cli (fst (actualizar_cliente hotel_ejemplo ''CF1'' ''Eva'' ''Cruz'')) 0) = ''Eva'' \<and>
   nombres (obj_cli (fst (actualizar_cliente hotel_ejemplo ''CF1'' ''Eva'' ''Cruz'')) 1) = ''Luis'' \<and>
   GestorHotel.reservas (gestor hotel_ejemplo) = [] @ 0 # [1] \<and>
   coincide hotel_ejemplo ''CF1'' 101 0 \<and> coincide hotel_ejemplo ''CF1'' 101 1 \<and>
   fecha_entrada (obj_res (fst (modificar_reserva hotel_ejemplo ''CF1'' 101 40 41)) 0) = 40 \<and>
   fecha_entrada (obj_res (fst (modificar_reserva hotel_ejemplo ''CF1'' 101 40 41)) 1) = 20 \<and>
   estado (obj_res (fst (cancelar_reserva hotel_ejemplo ''CF1'' 101)) 0) = ''Cancelada'' \<and>
   estado (obj_res (fst (cancelar_reserva hotel_ejemplo ''CF1'' 101)) 1) = ''Activa''"
  using first_match_wins [of hotel_ejemplo "[]" 0 "[1, 2]" 101 75 "[]" 0 "[1]" "''CF1''"
      "''Eva''" "''Cruz''" "[]" 0 "[1]" 40 41]
  by (simp add: hotel_ejemplo_simps coincide_def)

section \<open>Reservations and their clients\<close>

lemma modificar_habitacion_cases:
  "fst (modificar_habitacion s num p) = s \<or>
   (\<exists>a. fst (modificar_habitacion s num p) = set_precio s a p)"
  by (auto simp: modificar_habitacion_def modificar_habitacion_loop_find split: option.splits)

lemma actualizar_cliente_cases:
  "fst (actualizar_cliente s d ns aps) = s \<or>
   (\<exists>a. fst (actualizar_cliente s d ns aps) = set_nombres s a ns aps)"
  by (auto simp: actualizar_cliente_def actualizar_cliente_loop_find split: option.splits)

lemma modificar_reserva_cases:
  "fst (modificar_reserva s d num fe fs) = s \<or>
   (\<exists>a. fst (modificar_reserva s d num fe fs) = set_fechas s a fe fs)"
  by (auto simp: modificar_reserva_def modificar_reserva_loop_find split: option.splits)

lemma cancelar_reserva_cases:
  "fst (cancelar_reserva s d num) = s \<or>
   (\<exists>a. a \<in> set (GestorHotel.reservas (gestor s)) \<and> coincide s d num a \<and>
        fst (cancelar_reserva s d num) =
          set_disponible (set_estado s a ''Cancelada'') (habitacion (obj_res s a)) True)"
  by (auto simp: cancelar_reserva_def cancelar_reserva_loop_find
      split: option.splits dest: find_some_member)

lemma crear_reserva_cases:
  "(\<not> disponible (obj_hab s (habitacion (obj_res s b))) \<and> fst (crear_reserva s b) = s) \<or>
   (disponible (obj_hab s (habitacion (obj_res s b))) \<and>
    fst (crear_reserva s b) =
      append_reserva_cliente
        ((set_disponible s (habitacion (obj_res s b)) False)
           \<lparr>gestor := (gestor s)
              \<lparr>GestorHotel.reservas := GestorHotel.reservas (gestor s) @ [b]\<rparr>\<rparr>)
        (cliente (obj_res s b)) b)"
  by (simp add: crear_reserva_def Let_def setters)

text \<open>What a call does to the reservation registry and to the clients' lists.\<close>

lemma ejecutar_listas:
  "permitida s c \<Longrightarrow>
   (case c of
      Crear_reserva b \<Rightarrow>
        (if disponible (obj_hab s (habitacion (obj_res s b))) then
           GestorHotel.reservas (gestor (ejecutar s c)) = GestorHotel.reservas (gestor s) @ [b] \<and>
           (\<forall>k. Cliente.reservas (obj_cli (ejecutar s c) k) =
                (if k = cliente (obj_res s b) then Cliente.reservas (obj_cli s k) @ [b]
                 else Cliente.reservas (obj_cli s k)))
         else
           GestorHotel.reservas (gestor (ejecutar s c)) = GestorHotel.reservas (gestor s) \<and>
           (\<forall>k. Cliente.reservas (obj_cli (ejecutar s c) k) = Cliente.reservas (obj_cli s k)))
    | _ \<Rightarrow>
        GestorHotel.reservas (gestor (ejecutar s c)) = GestorHotel.reservas (gestor s) \<and>
        (\<forall>k<n_cli s. Cliente.reservas (obj_cli (ejecutar s c) k) =
                     Cliente.reservas (obj_cli s k)))"
proof (cases c)
  case (Modificar_habitacion num p)
  then show ?thesis using modificar_habitacion_cases [of s num p] by (auto simp: setters)
next
  case (Actualizar_cliente d ns aps)
  then show ?thesis using actualizar_cliente_cases [of s d ns aps] by (auto simp: setters)
next
  case (Crear_reserva b)
  then show ?thesis using crear_reserva_cases [of s b] by (auto simp: setters)
next
  case (Modificar_reserva d num fe fs)
  then show ?thesis using modificar_reserva_cases [of s d num fe fs] by (auto simp: setters)
next
  case (Cancelar_reserva d num)
  then show ?thesis using cancelar_reserva_cases [of s d num] by (auto simp: setters)
qed (simp_all add: constructores operaciones)

lemma refs_vivas_ejecutar:
  "refs_vivas s \<Longrightarrow> permitida s c \<Longrightarrow> refs_vivas (ejecutar s c)"
proof (cases c)
  case (Modificar_habitacion num p)
  then show ?thesis if "refs_vivas s"
    using that modificar_habitacion_cases [of s num p] by (auto simp: setters refs_vivas_def)
next
  case (Actualizar_cliente d ns aps)
  then show ?thesis if "refs_vivas s"
    using that actualizar_cliente_cases [of s d ns aps] by (auto simp: setters refs_vivas_def)
next
  case (Crear_reserva b)
  then show ?thesis if "refs_vivas s" "permitida s c"
    using that crear_reserva_cases [of s b] by (auto simp: setters refs_vivas_def)
next
  case (Modificar_reserva d num fe fs)
  then show ?thesis if "refs_vivas s"
    using that modificar_reserva_cases [of s d num fe fs] by (auto simp: setters refs_vivas_def)
next
  case (Cancelar_reserva d num)
  then show ?thesis if "refs_vivas s"
    using that cancelar_reserva_cases [of s d num] by (auto simp: setters refs_vivas_def)
qed (auto simp: constructores operaciones refs_vivas_def less_Suc_eq)


lemma ejecutar_reserva_refs:
  "permitida s c \<Longrightarrow> r < n_res s \<Longrightarrow>
   cliente (obj_res (ejecutar s c) r) = cliente (obj_res s r) \<and>
   habitacion (obj_res (ejecutar s c) r) = habitacion (obj_res s r)"
proof (cases c)
  case (Modificar_habitacion num p)
  then show ?thesis using modificar_habitacion_cases [of s num p] by (auto simp: setters)
next
  case (Actualizar_cliente d ns aps)
  then show ?thesis using actualizar_cliente_cases [of s d ns aps] by (auto simp: setters)
next
  case (Crear_reserva b)
  then show ?thesis using crear_reserva_cases [of s b] by (auto simp: setters)
next
  case (Modificar_reserva d num fe fs)
  then show ?thesis using modificar_reserva_cases [of s d num fe fs] by (auto simp: setters)
next
  case (Cancelar_reserva d num)
  then show ?thesis using cancelar_reserva_cases [of s d num] by (auto simp: setters)
qed (auto simp: constructores operaciones)

lemma en_su_cliente_ejecutar:
  assumes v: "refs_vivas s" and e: "en_su_cliente s" and p: "permitida s c"
  shows "en_su_cliente (ejecutar s c)"
  unfolding en_su_cliente_def
proof
  fix r
  assume r: "r \<in> set (GestorHotel.reservas (gestor (ejecutar s c)))"
  note l = ejecutar_listas [OF p]
  show "r \<in> set (Cliente.reservas (obj_cli (ejecutar s c) (cliente (obj_res (ejecutar s c) r))))"
  proof (cases "\<exists>b. c = Crear_reserva b \<and> disponible (obj_hab s (habitacion (obj_res s b)))")
    case True
    then obtain b where c: "c = Crear_reserva b"
      and d: "disponible (obj_hab s (habitacion (obj_res s b)))" by blast
    have regs: "GestorHotel.reservas (gestor (ejecutar s c)) = GestorHotel.reservas (gestor s) @ [b]"
      and lists: "\<And>k. Cliente.reservas (obj_cli (ejecutar s c) k) =
                (if k = cliente (obj_res s b) then Cliente.reservas (obj_cli s k) @ [b]
                 else Cliente.reservas (obj_cli s k))"
      using l c d by simp_all
    have live: "r < n_res s"
      using r regs v p c by (auto simp: refs_vivas_def)
    have cl: "cliente (obj_res (ejecutar s c) r) = cliente (obj_res s r)"
      using ejecutar_reserva_refs [OF p live] by simp
    show ?thesis
    proof (cases "r = b")
      case True
      with cl have "cliente (obj_res (ejecutar s c) b) = cliente (obj_res s b)" by simp
      then show ?thesis using True by (simp add: lists)
    next
      case False
      then have "r \<in> set (GestorHotel.reservas (gestor s))" using r regs by simp
      then have "r \<in> set (Cliente.reservas (obj_cli s (cliente (obj_res s r))))"
        using e by (simp add: en_su_cliente_def)
      then show ?thesis by (auto simp: cl lists)
    qed
  next
    case False
    then have regs: "GestorHotel.reservas (gestor (ejecutar s c)) = GestorHotel.reservas (gestor s)"
      and lists: "\<And>k. k < n_cli s \<Longrightarrow>
         Cliente.reservas (obj_cli (ejecutar s c) k) = Cliente.reservas (obj_cli s k)"
      using l by (cases c; simp)+
    have rin: "r \<in> set (GestorHotel.reservas (gestor s))" using r regs by simp
    then have live: "r < n_res s" and k: "cliente (obj_res s r) < n_cli s"
      using v by (auto simp: refs_vivas_def)
    have cl: "cliente (obj_res (ejecutar s c) r) = cliente (obj_res s r)"
      using ejecutar_reserva_refs [OF p live] by simp
    show ?thesis
      using rin e by (simp add: cl lists [OF k] en_su_cliente_def)
  qed
qed

lemma correr_invariante:
  "refs_vivas s \<Longrightarrow> en_su_cliente s \<Longrightarrow> correr s cs = Some s' \<Longrightarrow>
   refs_vivas s' \<and> en_su_cliente s'"
proof (induction cs arbitrary: s)
  case Nil
  then show ?case by simp
next
  case (Cons c cs)
  from Cons.prems(3) have p: "permitida s c" and run: "correr (ejecutar s c) cs = Some s'"
    by (simp_all split: if_splits)
  show ?case
    using Cons.IH [OF refs_vivas_ejecutar [OF Cons.prems(1) p]
        en_su_cliente_ejecutar [OF Cons.prems(1,2) p] run] .
qed

lemma inicial_invariante: "refs_vivas inicial \<and> en_su_cliente inicial"
  by (simp add: refs_vivas_def en_su_cliente_def constructores)

lemma correr_llamadas_ejemplo: "correr inicial llamadas_ejemplo = Some hotel_ejemplo"
  by (simp add: hotel_ejemplo_def llamadas_ejemplo_def operaciones setters constructores)

text \<open>
  C9: after any call sequence from the initial state, every reservation of the
  reservation registry is in the \<^verbatim>\<open>reservas\<close> list of its client. For any call that can
  follow: a \<^verbatim>\<open>crear_reserva\<close> on an available room appends the reservation to the
  registry and to the list of its client and leaves the other clients' lists alone; every
  other call, a refused \<^verbatim>\<open>crear_reserva\<close> included, leaves the registry and the list
  of every existing client as they are. So nothing is ever removed from either.
\<close>

theorem reservas_en_su_cliente:
  "correr inicial cs = Some s \<Longrightarrow>
   (\<forall>r\<in>set (GestorHotel.reservas (gestor s)).
      r \<in> set (Cliente.reservas (obj_cli s (cliente (obj_res s r))))) \<and>
   (\<forall>c. permitida s c \<longrightarrow>
      (case c of
         Crear_reserva b \<Rightarrow>
           (if disponible (obj_hab s (habitacion (obj_res s b))) then
              GestorHotel.reservas (gestor (ejecutar s c)) =
                GestorHotel.reservas (gestor s) @ [b] \<and>
              (\<forall>k. Cliente.reservas (obj_cli (ejecutar s c) k) =
                   (if k = cliente (obj_res s b) then Cliente.reservas (obj_cli s k) @ [b]
                    else Cliente.reservas (obj_cli s k)))
            else
              GestorHotel.reservas (gestor (ejecutar s c)) = GestorHotel.reservas (gestor s) \<and>
              (\<forall>k. Cliente.reservas (obj_cli (ejecutar s c) k) =
                   Cliente.reservas (obj_cli s k)))
       | _ \<Rightarrow>
           GestorHotel.reservas (gestor (ejecutar s c)) = GestorHotel.reservas (gestor s) \<and>
           (\<forall>k<n_cli s. Cliente.reservas (obj_cli (ejecutar s c) k) =
                        Cliente.reservas (obj_cli s k))))"
proof -
  assume run: "correr inicial cs = Some s"
  have "en_su_cliente s"
    using correr_invariante [OF _ _ run] inicial_invariante by blast
  then show ?thesis
    using ejecutar_listas [of s] by (simp add: en_su_cliente_def)
qed

theorem reservas_en_su_cliente_witness:
  "correr inicial llamadas_ejemplo = Some hotel_ejemplo \<and>
   GestorHotel.reservas (gestor hotel_ejemplo) = [0, 1] \<and>
   cliente (obj_res hotel_ejemplo 0) = 0 \<and> cliente (obj_res hotel_ejemplo 1) = 0 \<and>
   Cliente.reservas (obj_cli hotel_ejemplo 0) = [0, 1] \<and>
   list_all (\<lambda>r. r \<in> set (Cliente.reservas (obj_cli hotel_ejemplo
       (cliente (obj_res hotel_ejemplo r))))) (GestorHotel.reservas (gestor hotel_ejemplo)) \<and>
   permitida hotel_ejemplo (Crear_reserva 2) \<and>
   disponible (obj_hab hotel_ejemplo (habitacion (obj_res hotel_ejemplo 2))) \<and>
   GestorHotel.reservas (gestor (ejecutar hotel_ejemplo (Crear_reserva 2))) = [0, 1, 2] \<and>
   Cliente.reservas (obj_cli (ejecutar hotel_ejemplo (Crear_reserva 2)) 1) = [2] \<and>
   permitida hotel_ejemplo (Cancelar_reserva ''CF1'' 101) \<and>
   GestorHotel.reservas (gestor (ejecutar hotel_ejemplo (Cancelar_reserva ''CF1'' 101))) = [0, 1] \<and>
   Cliente.reservas (obj_cli (ejecutar hotel_ejemplo (Cancelar_reserva ''CF1'' 101)) 0) = [0, 1]"
proof -
  note t = reservas_en_su_cliente [OF correr_llamadas_ejemplo]
  have a: "\<forall>r\<in>set (GestorHotel.reservas (gestor hotel_ejemplo)).
      r \<in> set (Cliente.reservas (obj_cli hotel_ejemplo (cliente (obj_res hotel_ejemplo r))))"
    using t by blast
  have b: "GestorHotel.reservas (gestor (ejecutar hotel_ejemplo (Crear_reserva 2))) =
      GestorHotel.reservas (gestor hotel_ejemplo) @ [2] \<and>
    Cliente.reservas (obj_cli (ejecutar hotel_ejemplo (Crear_reserva 2)) 1) =
      Cliente.reservas (obj_cli hotel_ejemplo 1) @ [2]"
    using conjunct2 [OF t, THEN spec, of "Crear_reserva 2"]
    by (simp add: hotel_ejemplo_simps)
  have c: "GestorHotel.reservas (gestor (ejecutar hotel_ejemplo (Cancelar_reserva ''CF1'' 101))) =
      GestorHotel.reservas (gestor hotel_ejemplo) \<and>
    Cliente.reservas (obj_cli (ejecutar hotel_ejemplo (Cancelar_reserva ''CF1'' 101)) 0) =
      Cliente.reservas (obj_cli hotel_ejemplo 0)"
    using conjunct2 [OF t, THEN spec, of "Cancelar_reserva ''CF1'' 101"]
    by (simp add: hotel_ejemplo_simps)
  show ?thesis
    using correr_llamadas_ejemplo a b c
    by (simp add: hotel_ejemplo_simps list_all_iff)
qed

section \<open>One active reservation per room\<close>

text \<open>
  C1 says that after any call sequence a room has at most one reservation with status
  \<^verbatim>\<open>"Activa"\<close> bound to it. \<^verbatim>\<open>crear_reserva\<close> guards this with the room's flag, but
  \<^verbatim>\<open>cancelar_reserva\<close> releases the room of the first reservation that matches the
  pair, also when that reservation is already \<^verbatim>\<open>"Cancelada"\<close> and a later one holds
  the room. After \<open>llamadas_doble_reserva\<close> the registry holds reservations 0, 1 and 2,
  all three for room 0 (the only room of the hotel); reservation 0 is cancelled and
  reservations 1 and 2 are both active.
\<close>

theorem doble_reserva_activa:
  "map_option
     (\<lambda>s. (GestorHotel.reservas (gestor s),
           map (\<lambda>r. (habitacion (obj_res s r), estado (obj_res s r)))
             (GestorHotel.reservas (gestor s)),
           habitaciones (gestor s)))
     (correr inicial llamadas_doble_reserva) =
   Some ([0, 1, 2], [(0, ''Cancelada''), (0, ''Activa''), (0, ''Activa'')], [0])"
  by (simp add: llamadas_doble_reserva_def operaciones setters constructores)

text \<open>
  The guard does keep the property as long as no cancellation selects a reservation
  that is already cancelled.
\<close>

lemma ejecutar_otras:
  assumes "permitida s c" "\<And>b. c \<noteq> Crear_reserva b" "\<And>d num. c \<noteq> Cancelar_reserva d num"
  shows "GestorHotel.reservas (gestor (ejecutar s c)) = GestorHotel.reservas (gestor s)"
    and "r < n_res s \<Longrightarrow> habitacion (obj_res (ejecutar s c) r) = habitacion (obj_res s r)"
    and "r < n_res s \<Longrightarrow> estado (obj_res (ejecutar s c) r) = estado (obj_res s r)"
    and "h < n_hab s \<Longrightarrow> disponible (obj_hab (ejecutar s c) h) = disponible (obj_hab s h)"
proof -
  have "GestorHotel.reservas (gestor (ejecutar s c)) = GestorHotel.reservas (gestor s) \<and>
    (r < n_res s \<longrightarrow> habitacion (obj_res (ejecutar s c) r) = habitacion (obj_res s r) \<and>
       estado (obj_res (ejecutar s c) r) = estado (obj_res s r)) \<and>
    (h < n_hab s \<longrightarrow> disponible (obj_hab (ejecutar s c) h) = disponible (obj_hab s h))"
  proof (cases c)
    case (Modificar_habitacion num p)
    then show ?thesis
      using modificar_habitacion_cases [of s num p] by (auto simp: setters split: if_splits)
  next
    case (Actualizar_cliente d ns aps)
    then show ?thesis using actualizar_cliente_cases [of s d ns aps] by (auto simp: setters)
  next
    case (Modificar_reserva d num fe fs)
    then show ?thesis using modificar_reserva_cases [of s d num fe fs] by (auto simp: setters)
  next
    case (Crear_reserva b)
    then show ?thesis using assms(2) by simp
  next
    case (Cancelar_reserva d num)
    then show ?thesis using assms(3) by simp
  qed (auto simp: constructores operaciones)
  then show "GestorHotel.reservas (gestor (ejecutar s c)) = GestorHotel.reservas (gestor s)"
    and "r < n_res s \<Longrightarrow> habitacion (obj_res (ejecutar s c) r) = habitacion (obj_res s r)"
    and "r < n_res s \<Longrightarrow> estado (obj_res (ejecutar s c) r) = estado (obj_res s r)"
    and "h < n_hab s \<Longrightarrow> disponible (obj_hab (ejecutar s c) h) = disponible (obj_hab s h)"
    by simp_all
qed

lemma activas_otras:
  assumes v: "refs_vivas s" and u: "una_activa s" and o: "ocupada_si_activa s"
    and p: "permitida s c"
    and nb: "\<And>b. c \<noteq> Crear_reserva b" and nc: "\<And>d num. c \<noteq> Cancelar_reserva d num"
  shows "una_activa (ejecutar s c) \<and> ocupada_si_activa (ejecutar s c)"
proof -
  note f = ejecutar_otras [OF p nb nc]
  have live: "\<And>r. r \<in> set (GestorHotel.reservas (gestor s)) \<Longrightarrow>
      r < n_res s \<and> habitacion (obj_res s r) < n_hab s"
    using v by (auto simp: refs_vivas_def)
  show ?thesis
    using u o live unfolding una_activa_def ocupada_si_activa_def f(1)
    by (simp add: f(2,3,4))
qed

lemma activas_crear:
  assumes u: "una_activa s" and o: "ocupada_si_activa s"
  shows "una_activa (fst (crear_reserva s b)) \<and> ocupada_si_activa (fst (crear_reserva s b))"
proof (cases "disponible (obj_hab s (habitacion (obj_res s b)))")
  case False
  then show ?thesis using u o by (simp add: crear_reserva_False)
next
  case True
  have libre: "\<And>r. r \<in> set (GestorHotel.reservas (gestor s)) \<Longrightarrow>
      estado (obj_res s r) = ''Activa'' \<Longrightarrow> habitacion (obj_res s r) \<noteq> habitacion (obj_res s b)"
    using o True by (auto simp: ocupada_si_activa_def)
  show ?thesis
    using u o libre unfolding una_activa_def ocupada_si_activa_def
    by (auto simp: crear_reserva_True [OF True]; blast)
qed

lemma activas_cancelar:
  assumes u: "una_activa s" and o: "ocupada_si_activa s"
    and a: "cancela_activa s (Cancelar_reserva d num)"
  shows "una_activa (fst (cancelar_reserva s d num)) \<and>
         ocupada_si_activa (fst (cancelar_reserva s d num))"
proof (cases "find (coincide s d num) (GestorHotel.reservas (gestor s))")
  case None
  then show ?thesis
    using u o by (simp add: cancelar_reserva_def cancelar_reserva_loop_find)
next
  case (Some r)
  then have rin: "r \<in> set (GestorHotel.reservas (gestor s))"
    by (auto dest: find_some_member)
  have act: "estado (obj_res s r) = ''Activa''" using a Some by simp
  have res: "fst (cancelar_reserva s d num) =
      set_disponible (set_estado s r ''Cancelada'') (habitacion (obj_res s r)) True"
    using Some by (simp add: cancelar_reserva_def cancelar_reserva_loop_find)
  have otra: "\<And>x. x \<in> set (GestorHotel.reservas (gestor s)) \<Longrightarrow> x \<noteq> r \<Longrightarrow>
      estado (obj_res s x) = ''Activa'' \<Longrightarrow> habitacion (obj_res s x) \<noteq> habitacion (obj_res s r)"
    using u rin act by (auto simp: una_activa_def)
  show ?thesis
    using u o otra unfolding una_activa_def ocupada_si_activa_def res
    by (auto simp: setters)
qed

lemma activas_ejecutar:
  assumes v: "refs_vivas s" and u: "una_activa s" and o: "ocupada_si_activa s"
    and p: "permitida s c" and a: "cancela_activa s c"
  shows "una_activa (ejecutar s c) \<and> ocupada_si_activa (ejecutar s c)"
proof (cases "(\<exists>b. c = Crear_reserva b) \<or> (\<exists>d num. c = Cancelar_reserva d num)")
  case True
  then show ?thesis
    using activas_crear [OF u o] activas_cancelar [OF u o] a by auto
next
  case False
  then show ?thesis using activas_otras [OF v u o p] by blast
qed

lemma correr_sin_recancelar_invariante:
  "refs_vivas s \<Longrightarrow> una_activa s \<Longrightarrow> ocupada_si_activa s \<Longrightarrow>
   correr_sin_recancelar s cs = Some s' \<Longrightarrow> una_activa s' \<and> ocupada_si_activa s'"
proof (induction cs arbitrary: s)
  case Nil
  then show ?case by simp
next
  case (Cons c cs)
  from Cons.prems(4) have p: "permitida s c" and a: "cancela_activa s c"
    and run: "correr_sin_recancelar (ejecutar s c) cs = Some s'"
    by (simp_all split: if_splits)
  note step = activas_ejecutar [OF Cons.prems(1,2,3) p a]
  show ?case
    using Cons.IH [OF refs_vivas_ejecutar [OF Cons.prems(1) p] conjunct1 [OF step]
        conjunct2 [OF step] run] .
qed

lemma una_activa_sin_recancelar:
  "correr_sin_recancelar inicial cs = Some s \<Longrightarrow> una_activa s \<and> ocupada_si_activa s"
proof -
  assume run: "correr_sin_recancelar inicial cs = Some s"
  have "refs_vivas inicial" "una_activa inicial" "ocupada_si_activa inicial"
    by (simp_all add: refs_vivas_def una_activa_def ocupada_si_activa_def constructores)
  then show ?thesis using correr_sin_recancelar_invariante [OF _ _ _ run] by blast
qed

lemma correr_sin_recancelar_ejemplo:
  "correr_sin_recancelar inicial llamadas_ejemplo = Some hotel_ejemplo"
  by (simp add: hotel_ejemplo_def llamadas_ejemplo_def operaciones setters constructores)

section \<open>Booking a room twice without cancelling\<close>

text \<open>
  Once a room has been booked, no call other than \<^verbatim>\<open>cancelar_reserva\<close> makes it
  available again: after any call sequence without a cancellation, booking a
  reservation for that room is refused and changes nothing.
\<close>

lemma ejecutar_n_hab: "n_hab s \<le> n_hab (ejecutar s c)"
proof (cases c)
  case (Modificar_habitacion num p)
  then show ?thesis using modificar_habitacion_cases [of s num p] by (auto simp: setters)
next
  case (Actualizar_cliente d ns aps)
  then show ?thesis using actualizar_cliente_cases [of s d ns aps] by (auto simp: setters)
next
  case (Crear_reserva b)
  then show ?thesis using crear_reserva_cases [of s b] by (auto simp: setters)
next
  case (Modificar_reserva d num fe fs)
  then show ?thesis using modificar_reserva_cases [of s d num fe fs] by (auto simp: setters)
next
  case (Cancelar_reserva d num)
  then show ?thesis using cancelar_reserva_cases [of s d num] by (auto simp: setters)
qed (auto simp: constructores operaciones)

lemma ocupada_ejecutar:
  assumes h: "h < n_hab s" and o: "\<not> disponible (obj_hab s h)"
    and p: "permitida s c" and nc: "\<not> es_cancelacion c"
  shows "\<not> disponible (obj_hab (ejecutar s c) h)"
proof (cases "\<exists>b. c = Crear_reserva b")
  case True
  then obtain b where "c = Crear_reserva b" by blast
  then show ?thesis
    using o crear_reserva_cases [of s b] by (auto simp: setters split: if_splits)
next
  case False
  have "\<And>d num. c \<noteq> Cancelar_reserva d num" using nc by auto
  with False show ?thesis using ejecutar_otras(4) [OF p _ _ h] o by blast
qed

lemma ocupada_correr:
  "h < n_hab s \<Longrightarrow> \<not> disponible (obj_hab s h) \<Longrightarrow> list_all (\<lambda>c. \<not> es_cancelacion c) cs \<Longrightarrow>
   correr s cs = Some s' \<Longrightarrow> h < n_hab s' \<and> \<not> disponible (obj_hab s' h)"
proof (induction cs arbitrary: s)
  case Nil
  then show ?case by simp
next
  case (Cons c cs)
  from Cons.prems(4) have p: "permitida s c" and run: "correr (ejecutar s c) cs = Some s'"
    by (simp_all split: if_splits)
  from Cons.prems(3) have nc: "\<not> es_cancelacion c"
    and rest: "list_all (\<lambda>c. \<not> es_cancelacion c) cs" by simp_all
  have h': "h < n_hab (ejecutar s c)"
    using Cons.prems(1) ejecutar_n_hab [of s c] by simp
  show ?case
    using Cons.IH [OF h' ocupada_ejecutar [OF Cons.prems(1,2) p nc] rest run] .
qed

lemma segunda_reserva_rechazada:
  assumes ok: "crear_reserva s b = (s1, True)"
    and live: "habitacion (obj_res s b) < n_hab s"
    and sin: "list_all (\<lambda>c. \<not> es_cancelacion c) cs"
    and run: "correr s1 cs = Some s2"
    and same: "habitacion (obj_res s2 b') = habitacion (obj_res s b)"
  shows "crear_reserva s2 b' = (s2, False)"
proof -
  have d: "disponible (obj_hab s (habitacion (obj_res s b)))"
    using ok crear_reserva_snd [of s b] by simp
  have "\<not> disponible (obj_hab s1 (habitacion (obj_res s b)))"
    and "n_hab s1 = n_hab s"
    using ok crear_reserva_True [OF d] by auto
  then have "\<not> disponible (obj_hab s2 (habitacion (obj_res s b)))"
    using ocupada_correr [OF _ _ sin run] live by simp
  then show ?thesis using same by (simp add: crear_reserva_False)
qed

end
